theory Spec2Isabelle
  imports Complex_Main "HOL-Library.Word"
begin

section \<open>The dual-filter pose estimator of hdl\_localization\<close>

text \<open>
  The development embeds \<^verbatim>\<open>include/hdl_localization/pose_estimator.hpp\<close>
  (class \<^verbatim>\<open>PoseEstimator\<close>). Conventions of the embedding:
  \<^item> \<^verbatim>\<open>float\<close> and \<^verbatim>\<open>double\<close> are the real numbers: rounding, infinities and
    NaN are outside the model;
  \<^item> Eigen's dense vectors and matrices are lists and lists of rows, the fixed-size
    \<^verbatim>\<open>Matrix4f\<close> among them; the fixed-size \<^verbatim>\<open>Vector3f\<close> and
    \<^verbatim>\<open>Quaternionf\<close> are datatypes with their components;
  \<^item> a read outside a vector or a matrix, which Eigen leaves undefined, is an unspecified
    value of the model; the constructor gives the inertial mean 16 components, and the
    odometry filter is created with 7;
  \<^item> the members of the class are the fields of a record, each method takes the
    estimator and returns the updated one;
  \<^item> an exception is a value of the datatype \<open>error\<close>, and the outcome of a call that
    may throw is a sum type with the error on the left; the one exception that the
    header can raise comes from subtracting two time stamps in \<^verbatim>\<open>predict\<close>;
  \<^item> a \<^verbatim>\<open>std::unique_ptr\<close> that may be empty is an \<open>option\<close>, and so is a
    \<^verbatim>\<open>boost::optional\<close>;
  \<^item> what the header calls but does not contain (the unscented Kalman filter's
    \<^verbatim>\<open>predict\<close> and \<^verbatim>\<open>correct\<close>, Eigen's matrix inverse and its
    conversions between quaternions and rotation matrices, the registration method) is
    a field of the record \<open>externals\<close>, which every operation receives: a theorem with
    a free \<open>ext\<close> holds whatever these collaborators compute.
\<close>

subsection \<open>Dense vectors and matrices\<close>

type_synonym vec = "real list"
type_synonym mat = "real list list"

datatype vector3 = Vector3 (vx: real) (vy: real) (vz: real)

text \<open>The constructor takes the components in Eigen's order \<^verbatim>\<open>(w, x, y, z)\<close>.\<close>

datatype quaternion = Quaternion (qw: real) (qx: real) (qy: real) (qz: real)

definition rows :: "mat \<Rightarrow> nat" where
  "rows M = length M"

definition cols :: "mat \<Rightarrow> nat" where
  "cols M = (case M of [] \<Rightarrow> 0 | r # _ \<Rightarrow> length r)"

text \<open>\<^verbatim>\<open>MatrixXf::Identity(r, c)\<close>\<close>

definition Identity :: "nat \<Rightarrow> nat \<Rightarrow> mat" where
  "Identity r c = map (\<lambda>i. map (\<lambda>j. if i = j then 1 else 0) [0..<c]) [0..<r]"

text \<open>\<^verbatim>\<open>M * s\<close> for a scalar \<open>s\<close>\<close>

definition mat_scale :: "mat \<Rightarrow> real \<Rightarrow> mat" where
  "mat_scale M s = map (map (\<lambda>x. x * s)) M"

text \<open>\<^verbatim>\<open>M.middleRows(start, n) *= s\<close>\<close>

definition scale_middleRows :: "mat \<Rightarrow> nat \<Rightarrow> nat \<Rightarrow> real \<Rightarrow> mat" where
  "scale_middleRows M start n s =
     map (\<lambda>i. if start \<le> i \<and> i < start + n then map (\<lambda>x. x * s) (M ! i) else M ! i)
       [0..<length M]"

text \<open>\<^verbatim>\<open>A + B\<close>, \<^verbatim>\<open>A * B\<close>, \<^verbatim>\<open>A * v\<close> and \<^verbatim>\<open>u + v\<close>; the size of the result is
  the one Eigen gives it, from the left operand's rows and the right operand's columns.\<close>

definition mat_add :: "mat \<Rightarrow> mat \<Rightarrow> mat" where
  "mat_add A B = map (\<lambda>i. map (\<lambda>j. A ! i ! j + B ! i ! j) [0..<cols A]) [0..<rows A]"

definition mat_mul :: "mat \<Rightarrow> mat \<Rightarrow> mat" where
  "mat_mul A B =
     map (\<lambda>i. map (\<lambda>j. \<Sum>k<cols A. A ! i ! k * B ! k ! j) [0..<cols B]) [0..<rows A]"

definition mat_vec :: "mat \<Rightarrow> vec \<Rightarrow> vec" where
  "mat_vec A v = map (\<lambda>i. \<Sum>k<cols A. A ! i ! k * v ! k) [0..<rows A]"

definition vec_add :: "vec \<Rightarrow> vec \<Rightarrow> vec" where
  "vec_add u v = map (\<lambda>i. u ! i + v ! i) [0..<length u]"

text \<open>\<^verbatim>\<open>M.block<p, q>(i, j)\<close> read, and \<^verbatim>\<open>M.block<p, q>(i, j) = B\<close> written.\<close>

definition block :: "mat \<Rightarrow> nat \<Rightarrow> nat \<Rightarrow> nat \<Rightarrow> nat \<Rightarrow> mat" where
  "block M i j p q = map (\<lambda>r. map (\<lambda>c. M ! (i + r) ! (j + c)) [0..<q]) [0..<p]"

definition set_block :: "mat \<Rightarrow> nat \<Rightarrow> nat \<Rightarrow> nat \<Rightarrow> nat \<Rightarrow> mat \<Rightarrow> mat" where
  "set_block M i j p q B =
     map (\<lambda>r. map (\<lambda>c. if i \<le> r \<and> r < i + p \<and> j \<le> c \<and> c < j + q
                        then B ! (r - i) ! (c - j) else M ! r ! c)
                [0..<cols M])
       [0..<rows M]"

text \<open>\<^verbatim>\<open>v.norm()\<close> of a \<^verbatim>\<open>Vector3f\<close>\<close>

definition norm3 :: "vector3 \<Rightarrow> real" where
  "norm3 v = sqrt (vx v * vx v + vy v * vy v + vz v * vz v)"

subsection \<open>Quaternions\<close>

text \<open>\<^verbatim>\<open>a.coeffs().dot(b.coeffs())\<close>\<close>

definition coeffs_dot :: "quaternion \<Rightarrow> quaternion \<Rightarrow> real" where
  "coeffs_dot a b = qx a * qx b + qy a * qy b + qz a * qz b + qw a * qw b"

text \<open>\<^verbatim>\<open>q.coeffs() *= s\<close>\<close>

definition coeffs_scale :: "quaternion \<Rightarrow> real \<Rightarrow> quaternion" where
  "coeffs_scale q s = Quaternion (qw q * s) (qx q * s) (qy q * s) (qz q * s)"

definition quat_norm :: "quaternion \<Rightarrow> real" where
  "quat_norm q = sqrt (coeffs_dot q q)"

text \<open>
  \<^verbatim>\<open>q.normalized()\<close>: Eigen divides the coefficients by their norm, and returns a copy of
  a quaternion whose squared norm is not positive.
\<close>

definition normalized :: "quaternion \<Rightarrow> quaternion" where
  "normalized q =
     (let z = coeffs_dot q q
      in if z > 0
         then Quaternion (qw q / sqrt z) (qx q / sqrt z) (qy q / sqrt z) (qz q / sqrt z)
         else q)"

subsection \<open>Time stamps\<close>

text \<open>
  \<^verbatim>\<open>ros::Time\<close> holds seconds and nanoseconds as two unsigned 32-bit integers; the
  default-constructed time is zero. \<^verbatim>\<open>toNSec()\<close> is computed in 64 bits, where it
  cannot overflow.
\<close>

record ros_time =
  sec :: "32 word"
  nsec :: "32 word"

definition Time0 :: ros_time where
  "Time0 = \<lparr>sec = 0, nsec = 0\<rparr>"

definition is_zero :: "ros_time \<Rightarrow> bool" where
  "is_zero t = (sec t = 0 \<and> nsec t = 0)"

definition toNSec :: "ros_time \<Rightarrow> int" where
  "toNSec t = uint (sec t) * 1000000000 + uint (nsec t)"

text \<open>
  \<^verbatim>\<open>ros::Duration\<close> holds seconds and nanoseconds as two signed 32-bit integers.
  The definitions follow the ROS time library (\<^verbatim>\<open>rostime\<close>), which the header
  includes. The difference of two times is \<^verbatim>\<open>Duration().fromNSec(toNSec() - rhs.toNSec())\<close>:
  \<^verbatim>\<open>fromNSec\<close> divides by \<open>10\<^sup>9\<close> as C++ does, towards zero, normalizes the
  nanoseconds into \<open>[0, 10\<^sup>9)\<close>, and throws \<^verbatim>\<open>std::runtime_error\<close> ("Duration is out
  of dual 32-bit range") when the seconds do not fit 32 bits, before and after the
  normalization. The 64-bit difference of two \<^verbatim>\<open>toNSec()\<close> values is below
  \<open>2\<^sup>6\<^sup>3\<close> in magnitude, so it is the difference of the integers. \<^verbatim>\<open>toSec()\<close>
  reads a duration in seconds.
\<close>

datatype error = DurationOutOfRange

record ros_duration =
  dsec :: int
  dnsec :: int

definition int32_range :: "int \<Rightarrow> bool" where
  "int32_range x = (- 2147483648 \<le> x \<and> x \<le> 2147483647)"

definition cpp_div :: "int \<Rightarrow> int \<Rightarrow> int" where
  "cpp_div a b = sgn a * sgn b * (\<bar>a\<bar> div \<bar>b\<bar>)"

definition cpp_mod :: "int \<Rightarrow> int \<Rightarrow> int" where
  "cpp_mod a b = a - cpp_div a b * b"

definition normalizeSecNSecSigned :: "int \<Rightarrow> int \<Rightarrow> error + ros_duration" where
  "normalizeSecNSecSigned s ns =
     (let nsec_part = cpp_mod ns 1000000000;
          sec_part = s + cpp_div ns 1000000000;
          nsec_part' = (if nsec_part < 0 then nsec_part + 1000000000 else nsec_part);
          sec_part' = (if nsec_part < 0 then sec_part - 1 else sec_part)
      in if int32_range sec_part' then Inr \<lparr>dsec = sec_part', dnsec = nsec_part'\<rparr>
         else Inl DurationOutOfRange)"

definition fromNSec :: "int \<Rightarrow> error + ros_duration" where
  "fromNSec t =
     (let sec64 = cpp_div t 1000000000
      in if int32_range sec64 then normalizeSecNSecSigned sec64 (cpp_mod t 1000000000)
         else Inl DurationOutOfRange)"

definition time_minus :: "ros_time \<Rightarrow> ros_time \<Rightarrow> error + ros_duration" where
  "time_minus a b = fromNSec (toNSec a - toNSec b)"

definition toSec :: "ros_duration \<Rightarrow> real" where
  "toSec d = real_of_int (dsec d) + real_of_int (dnsec d) / 1000000000"

subsection \<open>The unscented Kalman filter, as the estimator sees it\<close>

text \<open>\<^verbatim>\<open>PoseSystem\<close> has the public member \<^verbatim>\<open>dt\<close>, which \<^verbatim>\<open>predict\<close> writes;
  \<^verbatim>\<open>OdomSystem\<close> has no member that the estimator touches.\<close>

record pose_system =
  dt :: real

datatype odom_system = OdomSystem

text \<open>
  Modelled from the spec: \<^verbatim>\<open>kkl::alg::UnscentedKalmanFilterX\<close>
  (\<^verbatim>\<open>kkl/alg/unscented_kalman_filter.hpp\<close> is not among the sources). The filter
  "maintains a mean vector and covariance matrix" over "a state vector, a control vector,
  and an observation vector of fixed dimension", with a process-noise and a
  measurement-noise covariance. The estimator reads and writes the public members
  \<^verbatim>\<open>mean\<close>, \<^verbatim>\<open>cov\<close> and \<^verbatim>\<open>system\<close>.
\<close>

record 's ukf_x =
  system :: 's
  state_dim :: nat
  input_dim :: nat
  measurement_dim :: nat
  ukf_process_noise :: mat
  ukf_measurement_noise :: mat
  mean :: vec
  cov :: mat

text \<open>
  Modelled from the spec: the constructor of \<^verbatim>\<open>UnscentedKalmanFilterX\<close>, called as
  \<^verbatim>\<open>(system, state_dim, input_dim, measurement_dim, process_noise, measurement_noise,
  mean, cov)\<close>, which stores its arguments.
\<close>

definition UnscentedKalmanFilterX ::
  "'s \<Rightarrow> nat \<Rightarrow> nat \<Rightarrow> nat \<Rightarrow> mat \<Rightarrow> mat \<Rightarrow> vec \<Rightarrow> mat \<Rightarrow> 's ukf_x" where
  "UnscentedKalmanFilterX s n m k pn mn mu sigma =
     \<lparr>system = s, state_dim = n, input_dim = m, measurement_dim = k,
      ukf_process_noise = pn, ukf_measurement_noise = mn, mean = mu, cov = sigma\<rparr>"

text \<open>
  Modelled from the spec: \<^verbatim>\<open>setProcessNoiseCov\<close> "allows the process-noise covariance to
  be overridden per call".
\<close>

definition setProcessNoiseCov :: "'s ukf_x \<Rightarrow> mat \<Rightarrow> 's ukf_x" where
  "setProcessNoiseCov u pn = u\<lparr>ukf_process_noise := pn\<rparr>"

subsection \<open>External collaborators\<close>

text \<open>
  The functions the header calls and does not define. \<open>'r\<close> is the state of the
  registration method and \<open>'c\<close> a point cloud; \<open>align\<close> stands for
  \<^verbatim>\<open>setInputSource\<close>, \<^verbatim>\<open>align\<close> and \<^verbatim>\<open>getFinalTransformation\<close>: from the
  registration, the input cloud and the initial guess it gives the registration
  afterwards, the aligned cloud and the final transformation.
\<close>

record ('r, 'c) externals =
  pose_ukf_predict :: "pose_system ukf_x \<Rightarrow> vec \<Rightarrow> pose_system ukf_x"
  pose_ukf_correct :: "pose_system ukf_x \<Rightarrow> vec \<Rightarrow> pose_system ukf_x"
  odom_ukf_predict :: "odom_system ukf_x \<Rightarrow> vec \<Rightarrow> odom_system ukf_x"
  odom_ukf_correct :: "odom_system ukf_x \<Rightarrow> vec \<Rightarrow> odom_system ukf_x"
  inverse_m :: "mat \<Rightarrow> mat"
  quaternion_of_rotation :: "mat \<Rightarrow> quaternion"
  toRotationMatrix :: "quaternion \<Rightarrow> mat"
  align :: "'r \<Rightarrow> 'c \<Rightarrow> mat \<Rightarrow> 'r \<times> 'c \<times> mat"

subsection \<open>The estimator\<close>

record 'r pose_estimator =
  init_stamp :: ros_time
  prev_stamp :: ros_time
  last_correction_stamp :: ros_time
  cool_time_duration :: real
  process_noise :: mat
  ukf :: "pose_system ukf_x"
  odom_ukf :: "odom_system ukf_x option"
  imu_pred_error :: "mat option"
  odom_pred_error :: "mat option"
  registration :: 'r

text \<open>
  The constructor (lines 33 to 60). \<open>sys\<close> is the default-constructed
  \<^verbatim>\<open>PoseSystem\<close>, whose definition is not among the sources. The members that the
  initialiser list leaves out are default-constructed: the two time stamps are zero, the
  odometry filter and the two prediction errors are absent.
\<close>

definition PoseEstimator ::
  "pose_system \<Rightarrow> 'r \<Rightarrow> ros_time \<Rightarrow> vector3 \<Rightarrow> quaternion \<Rightarrow> real \<Rightarrow> 'r pose_estimator" where
  "PoseEstimator sys reg stamp pos quat cool =
     (let pn0 = Identity 16 16;
          pn1 = scale_middleRows pn0 0 3 1;
          pn2 = scale_middleRows pn1 3 3 1;
          pn3 = scale_middleRows pn2 6 4 (1 / 2);
          pn4 = scale_middleRows pn3 10 3 (1 / 1000000);
          pn5 = scale_middleRows pn4 13 3 (1 / 1000000);
          mn0 = Identity 7 7;
          mn1 = scale_middleRows mn0 0 3 (1 / 100);
          measurement_noise = scale_middleRows mn1 3 4 (1 / 1000);
          mean0 = [vx pos, vy pos, vz pos] @ [0, 0, 0]
                  @ [qw quat, qx quat, qy quat, qz quat] @ [0, 0, 0] @ [0, 0, 0];
          cov0 = mat_scale (Identity 16 16) (1 / 100)
      in \<lparr>init_stamp = stamp, prev_stamp = Time0, last_correction_stamp = Time0,
          cool_time_duration = cool, process_noise = pn5,
          ukf = UnscentedKalmanFilterX sys 16 6 7 pn5 measurement_noise mean0 cov0,
          odom_ukf = None, imu_pred_error = None, odom_pred_error = None,
          registration = reg\<rparr>)"

text \<open>
  \<^verbatim>\<open>predict\<close> (lines 68 to 85). \<open>predict_result\<close> is the outcome of the call:
  the exception of a time difference that is out of range, or the estimator it leaves.
  The first difference is taken in every call, the second one only past the early
  return, and both before any member is written: \<open>predict\<close>, the estimator after the
  call, is the estimator before it when the call throws.
\<close>

definition predict_result ::
  "('r, 'c) externals \<Rightarrow> 'r pose_estimator \<Rightarrow> ros_time \<Rightarrow> vector3 \<Rightarrow> vector3
     \<Rightarrow> error + 'r pose_estimator" where
  "predict_result ext est stamp acc gyro =
     (case time_minus stamp (init_stamp est) of
        Inl e \<Rightarrow> Inl e
      | Inr since_init \<Rightarrow>
          if toSec since_init < cool_time_duration est
             \<or> is_zero (prev_stamp est) \<or> prev_stamp est = stamp
          then Inr (est\<lparr>prev_stamp := stamp\<rparr>)
          else
            (case time_minus stamp (prev_stamp est) of
               Inl e \<Rightarrow> Inl e
             | Inr since_prev \<Rightarrow>
                 let dt' = toSec since_prev;
                     u1 = setProcessNoiseCov (ukf est) (mat_scale (process_noise est) dt');
                     u2 = u1\<lparr>system := (system u1)\<lparr>dt := dt'\<rparr>\<rparr>;
                     control = [vx acc, vy acc, vz acc] @ [vx gyro, vy gyro, vz gyro]
                 in Inr (est\<lparr>prev_stamp := stamp, ukf := pose_ukf_predict ext u2 control\<rparr>)))"

definition predict ::
  "('r, 'c) externals \<Rightarrow> 'r pose_estimator \<Rightarrow> ros_time \<Rightarrow> vector3 \<Rightarrow> vector3
     \<Rightarrow> 'r pose_estimator" where
  "predict ext est stamp acc gyro =
     (case predict_result ext est stamp acc gyro of Inl e \<Rightarrow> est | Inr est' \<Rightarrow> est')"

text \<open>
  \<^verbatim>\<open>predict_odom\<close> (lines 90 to 116), in four parts: the filter created when there
  is none (lines 92 to 101), the control vector (lines 104 to 108), the process noise
  (lines 110 to 112), and the method itself.
\<close>

definition new_odom_ukf :: "'r pose_estimator \<Rightarrow> odom_system ukf_x" where
  "new_odom_ukf est =
     (let odom_process_noise = Identity 7 7;
          odom_measurement_noise = mat_scale (Identity 7 7) (1 / 1000);
          odom_mean = [mean (ukf est) ! 0, mean (ukf est) ! 1, mean (ukf est) ! 2]
                      @ [mean (ukf est) ! 6, mean (ukf est) ! 7, mean (ukf est) ! 8,
                         mean (ukf est) ! 9];
          odom_cov = mat_scale (Identity 7 7) (1 / 100)
      in UnscentedKalmanFilterX OdomSystem 7 7 7 odom_process_noise odom_measurement_noise
           odom_mean odom_cov)"

text \<open>\<^verbatim>\<open>m.block<3, 1>(0, 3)\<close> of a 4x4 transform, as a \<^verbatim>\<open>Vector3f\<close>.\<close>

definition translation :: "mat \<Rightarrow> vector3" where
  "translation m = Vector3 (m ! 0 ! 3) (m ! 1 ! 3) (m ! 2 ! 3)"

definition odom_control :: "('r, 'c) externals \<Rightarrow> mat \<Rightarrow> vec" where
  "odom_control ext odom_delta =
     (let quat = quaternion_of_rotation ext (block odom_delta 0 0 3 3);
          t = translation odom_delta
      in [vx t, vy t, vz t] @ [qw quat, qx quat, qy quat, qz quat])"

definition odom_noise :: "('r, 'c) externals \<Rightarrow> mat \<Rightarrow> mat" where
  "odom_noise ext odom_delta =
     (let quat = quaternion_of_rotation ext (block odom_delta 0 0 3 3);
          pn0 = Identity 7 7;
          pn1 = set_block pn0 0 0 3 3
                  (mat_add (mat_scale (Identity 3 3) (norm3 (translation odom_delta)))
                           (mat_scale (Identity 3 3) (1 / 1000)))
      in set_block pn1 3 3 4 4
           (mat_add (mat_scale (Identity 4 4) (1 - \<bar>qw quat\<bar>))
                    (mat_scale (Identity 4 4) (1 / 1000))))"

definition predict_odom ::
  "('r, 'c) externals \<Rightarrow> 'r pose_estimator \<Rightarrow> mat \<Rightarrow> 'r pose_estimator" where
  "predict_odom ext est odom_delta =
     (let u = (case odom_ukf est of None \<Rightarrow> new_odom_ukf est | Some u0 \<Rightarrow> u0);
          u1 = setProcessNoiseCov u (odom_noise ext odom_delta)
      in est\<lparr>odom_ukf := Some (odom_ukf_predict ext u1 (odom_control ext odom_delta))\<rparr>)"

text \<open>
  The getters (lines 187 to 231). A 4x4 pose is the identity with the rotation written
  to its top left 3x3 block and the position to the top of its last column. The three
  odometry getters dereference \<^verbatim>\<open>odom_ukf\<close>: with no filter that is a null pointer,
  and the model returns \<open>None\<close>.
\<close>

definition pose_matrix :: "mat \<Rightarrow> vector3 \<Rightarrow> mat" where
  "pose_matrix R p =
     set_block (set_block (Identity 4 4) 0 0 3 3 R) 0 3 3 1 [[vx p], [vy p], [vz p]]"

definition last_correction_time :: "'r pose_estimator \<Rightarrow> ros_time" where
  "last_correction_time est = last_correction_stamp est"

definition pos :: "'r pose_estimator \<Rightarrow> vector3" where
  "pos est = Vector3 (mean (ukf est) ! 0) (mean (ukf est) ! 1) (mean (ukf est) ! 2)"

definition vel :: "'r pose_estimator \<Rightarrow> vector3" where
  "vel est = Vector3 (mean (ukf est) ! 3) (mean (ukf est) ! 4) (mean (ukf est) ! 5)"

definition quat :: "'r pose_estimator \<Rightarrow> quaternion" where
  "quat est =
     normalized (Quaternion (mean (ukf est) ! 6) (mean (ukf est) ! 7) (mean (ukf est) ! 8)
                   (mean (ukf est) ! 9))"

definition matrix :: "('r, 'c) externals \<Rightarrow> 'r pose_estimator \<Rightarrow> mat" where
  "matrix ext est = pose_matrix (toRotationMatrix ext (quat est)) (pos est)"

definition odom_pos :: "'r pose_estimator \<Rightarrow> vector3 option" where
  "odom_pos est =
     (case odom_ukf est of
        None \<Rightarrow> None
      | Some u \<Rightarrow> Some (Vector3 (mean u ! 0) (mean u ! 1) (mean u ! 2)))"

definition odom_quat :: "'r pose_estimator \<Rightarrow> quaternion option" where
  "odom_quat est =
     (case odom_ukf est of
        None \<Rightarrow> None
      | Some u \<Rightarrow>
          Some (normalized (Quaternion (mean u ! 3) (mean u ! 4) (mean u ! 5) (mean u ! 6))))"

definition odom_matrix :: "('r, 'c) externals \<Rightarrow> 'r pose_estimator \<Rightarrow> mat option" where
  "odom_matrix ext est =
     (case odom_quat est of
        None \<Rightarrow> None
      | Some q \<Rightarrow>
          (case odom_pos est of
             None \<Rightarrow> None
           | Some p \<Rightarrow> Some (pose_matrix (toRotationMatrix ext q) p)))"

definition imu_prediction_error :: "'r pose_estimator \<Rightarrow> mat option" where
  "imu_prediction_error est = imu_pred_error est"

definition odom_prediction_error :: "'r pose_estimator \<Rightarrow> mat option" where
  "odom_prediction_error est = odom_pred_error est"

text \<open>
  \<^verbatim>\<open>correct\<close> (lines 123 to 184), in parts: the 7-dimensional pose belief of the
  inertial filter (lines 136 to 144), the fusion (lines 146 to 153), the initial guess
  (lines 126 to 157), the observation (lines 163 to 173), and the method itself, which
  returns the aligned cloud and the estimator.
\<close>

definition imu_pose_mean :: "pose_system ukf_x \<Rightarrow> vec" where
  "imu_pose_mean u =
     [mean u ! 0, mean u ! 1, mean u ! 2] @ [mean u ! 6, mean u ! 7, mean u ! 8, mean u ! 9]"

definition imu_pose_cov :: "pose_system ukf_x \<Rightarrow> mat" where
  "imu_pose_cov u =
     (let c0 = Identity 7 7;
          c1 = set_block c0 0 0 3 3 (block (cov u) 0 0 3 3);
          c2 = set_block c1 0 3 3 4 (block (cov u) 0 6 3 4);
          c3 = set_block c2 3 0 4 3 (block (cov u) 6 0 4 3)
      in set_block c3 3 3 4 4 (block (cov u) 6 6 4 4))"

definition fuse ::
  "('r, 'c) externals \<Rightarrow> pose_system ukf_x \<Rightarrow> odom_system ukf_x \<Rightarrow> vec \<times> mat" where
  "fuse ext u ou =
     (let imu_mean = imu_pose_mean u;
          imu_cov = imu_pose_cov u;
          odom_mean = mean ou;
          odom_cov = cov ou;
          inv_imu_cov = inverse_m ext imu_cov;
          inv_odom_cov = inverse_m ext odom_cov;
          fused_cov = inverse_m ext (mat_add inv_imu_cov inv_odom_cov);
          fused_mean = vec_add (mat_vec (mat_mul fused_cov inv_imu_cov) imu_mean)
                               (mat_vec (mat_mul fused_cov inv_odom_cov) odom_mean)
      in (fused_mean, fused_cov))"

text \<open>The pose assembled from a 7-dimensional mean (lines 155 and 156): the position is
  written first, then the rotation.\<close>

definition guess_of_mean :: "('r, 'c) externals \<Rightarrow> vec \<Rightarrow> mat" where
  "guess_of_mean ext m =
     (let g0 = Identity 4 4;
          g1 = set_block g0 0 3 3 1 [[m ! 0], [m ! 1], [m ! 2]]
      in set_block g1 0 0 3 3
           (toRotationMatrix ext (normalized (Quaternion (m ! 3) (m ! 4) (m ! 5) (m ! 6)))))"

definition init_guess :: "('r, 'c) externals \<Rightarrow> 'r pose_estimator \<Rightarrow> mat" where
  "init_guess ext est =
     (case odom_ukf est of
        None \<Rightarrow> matrix ext est
      | Some ou \<Rightarrow> guess_of_mean ext (fst (fuse ext (ukf est) ou)))"

definition sign_aligned :: "quaternion \<Rightarrow> quaternion \<Rightarrow> quaternion" where
  "sign_aligned ref q = (if coeffs_dot ref q < 0 then coeffs_scale q (- 1) else q)"

definition observation :: "('r, 'c) externals \<Rightarrow> 'r pose_estimator \<Rightarrow> mat \<Rightarrow> vec" where
  "observation ext est trans' =
     (let p = translation trans';
          q = sign_aligned (quat est) (quaternion_of_rotation ext (block trans' 0 0 3 3))
      in [vx p, vy p, vz p] @ [qw q, qx q, qy q, qz q])"

definition correct ::
  "('r, 'c) externals \<Rightarrow> 'r pose_estimator \<Rightarrow> ros_time \<Rightarrow> 'c \<Rightarrow> 'c \<times> 'r pose_estimator" where
  "correct ext est stamp cloud =
     (let est1 = est\<lparr>last_correction_stamp := stamp\<rparr>;
          imu_guess = matrix ext est1;
          (reg, aligned, trans') = align ext (registration est1) cloud (init_guess ext est1);
          z = observation ext est1 trans';
          est2 = est1\<lparr>registration := reg,
                      ukf := pose_ukf_correct ext (ukf est1) z,
                      imu_pred_error := Some (mat_mul (inverse_m ext imu_guess) trans')\<rparr>;
          est3 = (case odom_ukf est1 of
                    None \<Rightarrow> est2
                  | Some ou \<Rightarrow>
                      est2\<lparr>odom_ukf := Some (odom_ukf_correct ext ou z),
                           odom_pred_error :=
                             map_option (\<lambda>odom_guess. mat_mul (inverse_m ext odom_guess) trans')
                               (odom_matrix ext est1)\<rparr>)
      in (aligned, est3))"

subsection \<open>Sequences of calls\<close>

text \<open>
  The three entry points, and the estimator after a sequence of calls made one at a time
  (the aligned cloud that \<open>correct\<close> returns is dropped). A \<open>predict\<close> call that
  throws has written nothing: the sequence goes on from the estimator as it was, as
  for a caller that catches the exception.
\<close>

datatype 'c call =
  Predict ros_time vector3 vector3
| PredictOdom mat
| Correct ros_time 'c

fun apply_call ::
  "('r, 'c) externals \<Rightarrow> 'r pose_estimator \<Rightarrow> 'c call \<Rightarrow> 'r pose_estimator" where
  "apply_call ext est (Predict stamp acc gyro) = predict ext est stamp acc gyro"
| "apply_call ext est (PredictOdom odom_delta) = predict_odom ext est odom_delta"
| "apply_call ext est (Correct stamp cloud) = snd (correct ext est stamp cloud)"

fun run :: "('r, 'c) externals \<Rightarrow> 'r pose_estimator \<Rightarrow> 'c call list \<Rightarrow> 'r pose_estimator" where
  "run ext est [] = est"
| "run ext est (c # cs) = run ext (apply_call ext est c) cs"

fun is_predict_odom :: "'c call \<Rightarrow> bool" where
  "is_predict_odom (PredictOdom _) = True"
| "is_predict_odom _ = False"

subsection \<open>The closed form of the fusion\<close>

text \<open>
  Following the spec's words, not the code: "invert each 7x7 covariance, sum the inverses
  to get the fused precision, invert back to get the fused covariance, and compute the
  fused mean as the precision-weighted sum of the two means", that is the fused
  covariance applied to the sum of the two means, each weighted by its precision.
\<close>

definition precision_weighted_average ::
  "(mat \<Rightarrow> mat) \<Rightarrow> vec \<Rightarrow> mat \<Rightarrow> vec \<Rightarrow> mat \<Rightarrow> vec \<times> mat" where
  "precision_weighted_average invert m1 c1 m2 c2 =
     (let precision1 = invert c1;
          precision2 = invert c2;
          fused_precision = mat_add precision1 precision2;
          fused_cov = invert fused_precision;
          fused_mean = mat_vec fused_cov (vec_add (mat_vec precision1 m1) (mat_vec precision2 m2))
      in (fused_mean, fused_cov))"

text \<open>An \<open>n\<close> by \<open>n\<close> matrix, and the index in the 16-dimensional inertial state of the
  \<open>i\<close>-th component of the 7-dimensional pose.\<close>

definition square_mat :: "nat \<Rightarrow> mat \<Rightarrow> bool" where
  "square_mat n M = (length M = n \<and> list_all (\<lambda>r. length r = n) M)"

definition pose_index :: "nat \<Rightarrow> nat" where
  "pose_index i = (if i < 3 then i else i + 3)"

subsection \<open>Stand-ins for the collaborators\<close>

text \<open>
  Concrete collaborators, to run the estimator on concrete inputs, after the stubs of the
  spec's test scenarios: a scan matcher "that always returns the transform translate by
  (1,0,0), identity rotation regardless of initial guess"; corrections that move the pose
  components of the mean to the observation; the inverse of a diagonal matrix with no
  zero on its diagonal; and conversions that know the identity rotation only.
\<close>

definition diag_inverse :: "mat \<Rightarrow> mat" where
  "diag_inverse M =
     map (\<lambda>i. map (\<lambda>j. if i = j then 1 / (M ! i ! i) else 0) [0..<cols M]) [0..<rows M]"

text \<open>
  Modelled from the spec: the prediction of the generic estimator
  (\<^verbatim>\<open>UnscentedKalmanFilterX::predict\<close>, not among the sources), which "propagates the
  current belief (mean, covariance) through the configured motion model and the
  currently-set process-noise covariance", for a motion model that leaves the state
  where it is: the sigma points do not move, so the mean and their spread stay, and the
  process noise is added to the covariance.
\<close>

definition additive_predict :: "'s ukf_x \<Rightarrow> vec \<Rightarrow> 's ukf_x" where
  "additive_predict u control = u\<lparr>cov := mat_add (cov u) (ukf_process_noise u)\<rparr>"

definition stub_transformation :: mat where
  "stub_transformation = [[1, 0, 0, 1], [0, 1, 0, 0], [0, 0, 1, 0], [0, 0, 0, 1]]"

definition stand_in :: "(unit, unit) externals" where
  "stand_in =
     \<lparr>pose_ukf_predict = additive_predict,
      pose_ukf_correct = (\<lambda>u z. u\<lparr>mean := take 3 z @ take 3 (drop 3 (mean u)) @ drop 3 z
                                              @ drop 10 (mean u)\<rparr>),
      odom_ukf_predict = additive_predict,
      odom_ukf_correct = (\<lambda>u z. u\<lparr>mean := z\<rparr>),
      inverse_m = diag_inverse,
      quaternion_of_rotation = (\<lambda>R. Quaternion 1 0 0 0),
      toRotationMatrix = (\<lambda>q. Identity 3 3),
      align = (\<lambda>reg cloud guess. (reg, cloud, stub_transformation))\<rparr>"

text \<open>An estimator constructed at time 100 s with the default cool time of one second,
  and some time stamps after it.\<close>

definition stamp_of :: "nat \<Rightarrow> nat \<Rightarrow> ros_time" where
  "stamp_of s ns = \<lparr>sec = of_nat s, nsec = of_nat ns\<rparr>"

definition estimator0 :: "unit pose_estimator" where
  "estimator0 =
     PoseEstimator \<lparr>dt = 1 / 100\<rparr> () (stamp_of 100 0) (Vector3 0 0 0) (Quaternion 1 0 0 0) 1"

text \<open>The same estimator with another initial pose; an odometry increment of one metre
  along \<open>x\<close>; and two 7-dimensional pose beliefs with diagonal covariances
  \<open>diag (1, 1, 1, 0.1, 0.1, 0.1, 0.1)\<close> and \<open>diag (4, 4, 4, 0.4, 0.4, 0.4, 0.4)\<close>, the first
  inside the 16-dimensional inertial filter, the second in the odometry filter.\<close>

definition estimator_at :: "vector3 \<Rightarrow> quaternion \<Rightarrow> unit pose_estimator" where
  "estimator_at p q = PoseEstimator \<lparr>dt = 1 / 100\<rparr> () (stamp_of 100 0) p q 1"

definition diag :: "vec \<Rightarrow> mat" where
  "diag d = map (\<lambda>i. map (\<lambda>j. if i = j then d ! i else 0) [0..<length d]) [0..<length d]"

definition fusion_odom_ukf :: "odom_system ukf_x" where
  "fusion_odom_ukf =
     UnscentedKalmanFilterX OdomSystem 7 7 7 (Identity 7 7) (mat_scale (Identity 7 7) (1 / 1000))
       [6, 7, 8, 1, 0, 0, 0] (diag [4, 4, 4, 2 / 5, 2 / 5, 2 / 5, 2 / 5])"

definition fusion_estimator :: "unit pose_estimator" where
  "fusion_estimator =
     estimator0
       \<lparr>ukf := (ukf estimator0)
          \<lparr>mean := [1, 2, 3, 0, 0, 0, 1, 0, 0, 0, 0, 0, 0, 0, 0, 0],
           cov := diag [1, 1, 1, 1 / 100, 1 / 100, 1 / 100, 1 / 10, 1 / 10, 1 / 10, 1 / 10,
                        1 / 100, 1 / 100, 1 / 100, 1 / 100, 1 / 100, 1 / 100]\<rparr>,
        odom_ukf := Some fusion_odom_ukf\<rparr>"

section \<open>Properties\<close>

subsection \<open>Evaluation of concrete inputs\<close>

lemma upt_3: "[0..<3] = [0, 1, 2]"
  by code_simp

lemma upt_4: "[0..<4] = [0, 1, 2, 3]"
  by code_simp

lemma upt_7: "[0..<7] = [0, 1, 2, 3, 4, 5, 6]"
  by code_simp

lemma upt_16: "[0..<16] = [0, 1, 2, 3, 4, 5, 6, 7, 8, 9, 10, 11, 12, 13, 14, 15]"
  by code_simp

lemma estimator0_fields:
  "init_stamp estimator0 = stamp_of 100 0"
  "prev_stamp estimator0 = Time0"
  "cool_time_duration estimator0 = 1"
  "odom_ukf estimator0 = None"
  by (simp_all add: estimator0_def PoseEstimator_def Let_def)

lemma process_noise_estimator0:
  "process_noise estimator0 =
     [[1, 0, 0, 0, 0, 0, 0, 0, 0, 0, 0, 0, 0, 0, 0, 0],
      [0, 1, 0, 0, 0, 0, 0, 0, 0, 0, 0, 0, 0, 0, 0, 0],
      [0, 0, 1, 0, 0, 0, 0, 0, 0, 0, 0, 0, 0, 0, 0, 0],
      [0, 0, 0, 1, 0, 0, 0, 0, 0, 0, 0, 0, 0, 0, 0, 0],
      [0, 0, 0, 0, 1, 0, 0, 0, 0, 0, 0, 0, 0, 0, 0, 0],
      [0, 0, 0, 0, 0, 1, 0, 0, 0, 0, 0, 0, 0, 0, 0, 0],
      [0, 0, 0, 0, 0, 0, 1 / 2, 0, 0, 0, 0, 0, 0, 0, 0, 0],
      [0, 0, 0, 0, 0, 0, 0, 1 / 2, 0, 0, 0, 0, 0, 0, 0, 0],
      [0, 0, 0, 0, 0, 0, 0, 0, 1 / 2, 0, 0, 0, 0, 0, 0, 0],
      [0, 0, 0, 0, 0, 0, 0, 0, 0, 1 / 2, 0, 0, 0, 0, 0, 0],
      [0, 0, 0, 0, 0, 0, 0, 0, 0, 0, 1 / 1000000, 0, 0, 0, 0, 0],
      [0, 0, 0, 0, 0, 0, 0, 0, 0, 0, 0, 1 / 1000000, 0, 0, 0, 0],
      [0, 0, 0, 0, 0, 0, 0, 0, 0, 0, 0, 0, 1 / 1000000, 0, 0, 0],
      [0, 0, 0, 0, 0, 0, 0, 0, 0, 0, 0, 0, 0, 1 / 1000000, 0, 0],
      [0, 0, 0, 0, 0, 0, 0, 0, 0, 0, 0, 0, 0, 0, 1 / 1000000, 0],
      [0, 0, 0, 0, 0, 0, 0, 0, 0, 0, 0, 0, 0, 0, 0, 1 / 1000000]]"
  apply (simp add: estimator0_def PoseEstimator_def Let_def)
  apply (simp add: Identity_def scale_middleRows_def upt_16)
  done

subsection \<open>Time differences\<close>

text \<open>The two-step computation of \<^verbatim>\<open>fromNSec\<close> gives the seconds and nanoseconds of
  the floor division by \<open>10\<^sup>9\<close>, and throws exactly when these seconds do not fit 32
  bits.\<close>

lemma cpp_div_nonneg: "0 \<le> a \<Longrightarrow> 0 < b \<Longrightarrow> cpp_div a b = a div b"
  by (cases "a = 0") (simp_all add: cpp_div_def)

lemma cpp_div_neg: "a < 0 \<Longrightarrow> 0 < b \<Longrightarrow> cpp_div a b = - ((- a) div b)"
  by (simp add: cpp_div_def)

lemma cpp_div_small: "\<bar>a\<bar> < b \<Longrightarrow> cpp_div a b = 0"
  by (simp add: cpp_div_def)

lemma normalize_nonneg:
  assumes "0 \<le> ns" "ns < 1000000000"
  shows "normalizeSecNSecSigned s ns =
           (if int32_range s then Inr \<lparr>dsec = s, dnsec = ns\<rparr> else Inl DurationOutOfRange)"
proof -
  have "cpp_div ns 1000000000 = 0"
    using assms by (intro cpp_div_small) simp
  then show ?thesis
    using assms by (simp add: normalizeSecNSecSigned_def cpp_mod_def Let_def)
qed

lemma normalize_neg:
  assumes "- 1000000000 < ns" "ns < 0"
  shows "normalizeSecNSecSigned s ns =
           (if int32_range (s - 1) then Inr \<lparr>dsec = s - 1, dnsec = ns + 1000000000\<rparr>
            else Inl DurationOutOfRange)"
proof -
  have "cpp_div ns 1000000000 = 0"
    using assms by (intro cpp_div_small) simp
  then show ?thesis
    using assms by (simp add: normalizeSecNSecSigned_def cpp_mod_def Let_def)
qed

lemma fromNSec_eq:
  "fromNSec t =
     (if int32_range (t div 1000000000)
      then Inr \<lparr>dsec = t div 1000000000, dnsec = t mod 1000000000\<rparr>
      else Inl DurationOutOfRange)"
proof -
  let ?B = "1000000000 :: int"
  consider (nonneg) "0 \<le> t" | (multiple) "t < 0" "t mod ?B = 0" | (other) "t < 0" "t mod ?B \<noteq> 0"
    by linarith
  then show ?thesis
  proof cases
    case nonneg
    then have d: "cpp_div t ?B = t div ?B"
      by (simp add: cpp_div_nonneg)
    have m: "cpp_mod t ?B = t mod ?B"
      unfolding cpp_mod_def d by (simp add: minus_div_mult_eq_mod)
    have "normalizeSecNSecSigned (t div ?B) (t mod ?B)
          = (if int32_range (t div ?B) then Inr \<lparr>dsec = t div ?B, dnsec = t mod ?B\<rparr>
             else Inl DurationOutOfRange)"
      by (rule normalize_nonneg) simp_all
    then show ?thesis
      unfolding fromNSec_def Let_def d m by simp
  next
    case multiple
    then have d: "cpp_div t ?B = t div ?B"
      by (simp add: cpp_div_neg zdiv_zminus1_eq_if)
    have m: "cpp_mod t ?B = t mod ?B"
      unfolding cpp_mod_def d by (simp add: minus_div_mult_eq_mod)
    have "normalizeSecNSecSigned (t div ?B) (t mod ?B)
          = (if int32_range (t div ?B) then Inr \<lparr>dsec = t div ?B, dnsec = t mod ?B\<rparr>
             else Inl DurationOutOfRange)"
      by (rule normalize_nonneg) simp_all
    then show ?thesis
      unfolding fromNSec_def Let_def d m by simp
  next
    case other
    then have d: "cpp_div t ?B = t div ?B + 1"
      by (simp add: cpp_div_neg zdiv_zminus1_eq_if)
    have "t = t div ?B * ?B + t mod ?B"
      by simp
    then have m: "cpp_mod t ?B = t mod ?B - ?B"
      unfolding cpp_mod_def d by (simp add: algebra_simps)
    have "0 \<le> t mod ?B" "t mod ?B < ?B"
      by simp_all
    with other have r: "- ?B < t mod ?B - ?B" "t mod ?B - ?B < 0"
      by simp_all
    have n: "normalizeSecNSecSigned (t div ?B + 1) (t mod ?B - ?B)
          = (if int32_range (t div ?B + 1 - 1)
             then Inr \<lparr>dsec = t div ?B + 1 - 1, dnsec = t mod ?B - ?B + ?B\<rparr>
             else Inl DurationOutOfRange)"
      using r by (rule normalize_neg)
    have "t div ?B < 0"
      using other by (simp add: neg_imp_zdiv_neg_iff)
    then have "int32_range (t div ?B) \<Longrightarrow> int32_range (t div ?B + 1)"
      by (simp add: int32_range_def)
    then show ?thesis
      unfolding fromNSec_def Let_def d m n by auto
  qed
qed

lemma toSec_fromNSec:
  "fromNSec t = Inr d \<Longrightarrow> toSec d = real_of_int t / 1000000000"
proof -
  assume "fromNSec t = Inr d"
  then have d: "d = \<lparr>dsec = t div 1000000000, dnsec = t mod 1000000000\<rparr>"
    by (simp add: fromNSec_eq split: if_splits)
  have "real_of_int t = real_of_int (t div 1000000000 * 1000000000 + t mod 1000000000)"
    by simp
  also have "\<dots> = real_of_int (t div 1000000000) * 1000000000 + real_of_int (t mod 1000000000)"
    by (simp only: of_int_add of_int_mult of_int_numeral)
  finally show ?thesis
    by (simp add: toSec_def d field_simps)
qed

lemma time_minus_eq:
  "time_minus a b =
     (if int32_range ((toNSec a - toNSec b) div 1000000000)
      then Inr \<lparr>dsec = (toNSec a - toNSec b) div 1000000000,
                dnsec = (toNSec a - toNSec b) mod 1000000000\<rparr>
      else Inl DurationOutOfRange)"
  by (simp add: time_minus_def fromNSec_eq)

lemma time_minus_toSec:
  "time_minus a b = Inr d \<Longrightarrow> toSec d = real_of_int (toNSec a - toNSec b) / 1000000000"
  unfolding time_minus_def by (rule toSec_fromNSec)

lemma time_minus_returns:
  "(\<exists>d. time_minus a b = Inr d) = int32_range ((toNSec a - toNSec b) div 1000000000)"
  by (simp add: time_minus_eq)

lemmas time_eval = time_minus_eq int32_range_def toSec_def toNSec_def stamp_of_def is_zero_def
  Time0_def

lemma mat_scale_nth:
  "length (mat_scale M s) = length M"
  "i < length M \<Longrightarrow> length (mat_scale M s ! i) = length (M ! i)"
  "i < length M \<Longrightarrow> j < length (M ! i) \<Longrightarrow> mat_scale M s ! i ! j = M ! i ! j * s"
  by (simp_all add: mat_scale_def)

subsection \<open>The outcomes of \<open>predict\<close>\<close>

lemma predict_result_absorbed:
  assumes "time_minus stamp (init_stamp est) = Inr d"
    and "toSec d < cool_time_duration est \<or> is_zero (prev_stamp est) \<or> prev_stamp est = stamp"
  shows "predict_result ext est stamp acc gyro = Inr (est\<lparr>prev_stamp := stamp\<rparr>)"
  using assms by (simp add: predict_result_def)

lemma predict_result_runs:
  assumes "time_minus stamp (init_stamp est) = Inr d"
    and "\<not> toSec d < cool_time_duration est"
    and "\<not> is_zero (prev_stamp est)"
    and "prev_stamp est \<noteq> stamp"
    and "time_minus stamp (prev_stamp est) = Inr d'"
  shows "predict_result ext est stamp acc gyro =
           Inr (est\<lparr>prev_stamp := stamp,
                      ukf := pose_ukf_predict ext
                        ((ukf est)\<lparr>ukf_process_noise :=
                                     mat_scale (process_noise est) (toSec d'),
                                   system := (system (ukf est))\<lparr>dt := toSec d'\<rparr>\<rparr>)
                        [vx acc, vy acc, vz acc, vx gyro, vy gyro, vz gyro]\<rparr>)"
  using assms by (simp add: predict_result_def Let_def setProcessNoiseCov_def)

lemma predict_result_throws:
  assumes "time_minus stamp (init_stamp est) = Inl e
           \<or> (\<exists>d. time_minus stamp (init_stamp est) = Inr d
                  \<and> \<not> toSec d < cool_time_duration est \<and> \<not> is_zero (prev_stamp est)
                  \<and> prev_stamp est \<noteq> stamp \<and> time_minus stamp (prev_stamp est) = Inl e)"
  shows "predict_result ext est stamp acc gyro = Inl e"
  using assms by (auto simp: predict_result_def)

lemma predict_of_result:
  "predict_result ext est stamp acc gyro = Inr est' \<Longrightarrow> predict ext est stamp acc gyro = est'"
  "predict_result ext est stamp acc gyro = Inl e \<Longrightarrow> predict ext est stamp acc gyro = est"
  by (simp_all add: predict_def)

lemma predict_result_fields:
  assumes "predict_result ext est stamp acc gyro = Inr est'"
  shows "prev_stamp est' = stamp"
    and "init_stamp est' = init_stamp est"
    and "cool_time_duration est' = cool_time_duration est"
    and "odom_ukf est' = odom_ukf est"
    and "\<exists>d. time_minus stamp (init_stamp est) = Inr d"
  using assms by (auto simp: predict_result_def Let_def split: sum.splits if_splits)

lemma predict_result_throw_controls:
  "predict_result ext est stamp acc gyro = Inl e
   \<Longrightarrow> predict_result ext est stamp acc' gyro' = Inl e"
  by (auto simp: predict_result_def Let_def split: sum.splits if_splits)

text \<open>
  C8. Calling \<open>predict\<close> twice in succession with the same time stamp, with any
  controls, gives the estimator that the first call gives: after the first call
  \<open>prev_stamp\<close> is the incoming stamp, so the second call takes the early return and
  writes the same stamp again.
\<close>

theorem predict_same_stamp_twice:
  "predict ext (predict ext est stamp acc gyro) stamp acc' gyro'
     = predict ext est stamp acc gyro"
proof (cases "predict_result ext est stamp acc gyro")
  case (Inl e)
  then have first: "predict ext est stamp acc gyro = est"
    by (rule predict_of_result)
  from Inl have "predict_result ext est stamp acc' gyro' = Inl e"
    by (rule predict_result_throw_controls)
  then have "predict ext est stamp acc' gyro' = est"
    by (rule predict_of_result)
  with first show ?thesis
    by simp
next
  case (Inr est')
  then have first: "predict ext est stamp acc gyro = est'"
    by (rule predict_of_result)
  from predict_result_fields [OF Inr]
  obtain d where d: "time_minus stamp (init_stamp est') = Inr d"
    and prev: "prev_stamp est' = stamp"
    by auto
  have "predict_result ext est' stamp acc' gyro' = Inr (est'\<lparr>prev_stamp := stamp\<rparr>)"
    using d by (rule predict_result_absorbed) (simp add: prev)
  also have "est'\<lparr>prev_stamp := stamp\<rparr> = est'"
    using prev by simp
  finally have "predict ext est' stamp acc' gyro' = est'"
    by (rule predict_of_result)
  with first show ?thesis
    by simp
qed

theorem predict_same_stamp_twice_witness:
  "predict stand_in
     (predict stand_in (estimator0\<lparr>prev_stamp := stamp_of 101 0\<rparr>) (stamp_of 101 500000000)
        (Vector3 0 0 1) (Vector3 0 0 0))
     (stamp_of 101 500000000) (Vector3 1 0 0) (Vector3 0 1 0)
   = predict stand_in (estimator0\<lparr>prev_stamp := stamp_of 101 0\<rparr>) (stamp_of 101 500000000)
       (Vector3 0 0 1) (Vector3 0 0 0)"
  using predict_same_stamp_twice
          [of stand_in "estimator0\<lparr>prev_stamp := stamp_of 101 0\<rparr>" "stamp_of 101 500000000"
              "Vector3 0 0 1" "Vector3 0 0 0" "Vector3 1 0 0" "Vector3 0 1 0"]
  by simp




text \<open>
  C3, as amended. When the time since the construction stamp fits a ROS duration, a
  \<open>predict\<close> call whose stamp lies less than the cool time after the construction
  stamp, and a call with no previous stamp recorded (the first call after construction
  is one), leave the inertial filter's mean and covariance unchanged and only write
  \<open>prev_stamp\<close>; every call that returns records its stamp there. A call past the cool
  time with a recorded, strictly smaller previous stamp, when the time since that stamp
  fits a ROS duration too, computes \<open>dt\<close>, positive, as the time since \<open>prev_stamp\<close>,
  the stamp of the call before it, multiplies every entry of the base process noise by
  it, writes \<open>dt\<close> to the motion model and runs the inertial filter's prediction on the
  6-dimensional control (acceleration, then angular velocity). A call that takes a time
  difference which does not fit a ROS duration (its seconds, rounded down, are outside
  32 bits) throws and leaves the estimator as it was.
\<close>

theorem predict_gating:
  "(\<forall>d. time_minus stamp (init_stamp est) = Inr d
         \<and> (toSec d < cool_time_duration est \<or> is_zero (prev_stamp est))
      \<longrightarrow> predict_result ext est stamp acc gyro = Inr (est\<lparr>prev_stamp := stamp\<rparr>)
          \<and> mean (ukf (predict ext est stamp acc gyro)) = mean (ukf est)
          \<and> cov (ukf (predict ext est stamp acc gyro)) = cov (ukf est))
   \<and> (\<forall>d. time_minus stamp start = Inr d
      \<longrightarrow> predict_result ext (PoseEstimator sys reg start p q cool) stamp acc gyro
            = Inr ((PoseEstimator sys reg start p q cool)\<lparr>prev_stamp := stamp\<rparr>))
   \<and> (\<forall>est'. predict_result ext est stamp acc gyro = Inr est' \<longrightarrow> prev_stamp est' = stamp)
   \<and> (\<forall>d d'. time_minus stamp (init_stamp est) = Inr d
         \<and> \<not> toSec d < cool_time_duration est
         \<and> \<not> is_zero (prev_stamp est)
         \<and> toNSec (prev_stamp est) < toNSec stamp
         \<and> time_minus stamp (prev_stamp est) = Inr d'
      \<longrightarrow> toSec d' = real_of_int (toNSec stamp - toNSec (prev_stamp est)) / 1000000000
          \<and> 0 < toSec d'
          \<and> predict_result ext est stamp acc gyro =
              Inr (est\<lparr>prev_stamp := stamp,
                      ukf := pose_ukf_predict ext
                        ((ukf est)\<lparr>ukf_process_noise :=
                                     mat_scale (process_noise est) (toSec d'),
                                   system := (system (ukf est))\<lparr>dt := toSec d'\<rparr>\<rparr>)
                        [vx acc, vy acc, vz acc, vx gyro, vy gyro, vz gyro]\<rparr>)
          \<and> length (mat_scale (process_noise est) (toSec d')) = length (process_noise est)
          \<and> (\<forall>i<length (process_noise est).
                length (mat_scale (process_noise est) (toSec d') ! i)
                  = length (process_noise est ! i)
                \<and> (\<forall>j<length (process_noise est ! i).
                      mat_scale (process_noise est) (toSec d') ! i ! j
                        = process_noise est ! i ! j * toSec d')))
   \<and> (\<forall>e. time_minus stamp (init_stamp est) = Inl e
            \<or> (\<exists>d. time_minus stamp (init_stamp est) = Inr d
                   \<and> \<not> toSec d < cool_time_duration est \<and> \<not> is_zero (prev_stamp est)
                   \<and> prev_stamp est \<noteq> stamp \<and> time_minus stamp (prev_stamp est) = Inl e)
      \<longrightarrow> predict_result ext est stamp acc gyro = Inl e
          \<and> predict ext est stamp acc gyro = est)
   \<and> (\<exists>d. time_minus stamp (prev_stamp est) = Inr d)
       = int32_range ((toNSec stamp - toNSec (prev_stamp est)) div 1000000000)
   \<and> (\<exists>d. time_minus stamp (init_stamp est) = Inr d)
       = int32_range ((toNSec stamp - toNSec (init_stamp est)) div 1000000000)"
proof (intro conjI impI allI)
  fix d
  assume a: "time_minus stamp (init_stamp est) = Inr d
             \<and> (toSec d < cool_time_duration est \<or> is_zero (prev_stamp est))"
  then show r: "predict_result ext est stamp acc gyro = Inr (est\<lparr>prev_stamp := stamp\<rparr>)"
    by (intro predict_result_absorbed [of _ _ d]) blast+
  then have eq: "predict ext est stamp acc gyro = est\<lparr>prev_stamp := stamp\<rparr>"
    by (rule predict_of_result)
  show "mean (ukf (predict ext est stamp acc gyro)) = mean (ukf est)"
    and "cov (ukf (predict ext est stamp acc gyro)) = cov (ukf est)"
    by (simp_all add: eq)
next
  fix d
  let ?c = "PoseEstimator sys reg start p q cool"
  assume "time_minus stamp start = Inr d"
  moreover have "init_stamp ?c = start" "is_zero (prev_stamp ?c)"
    by (simp_all add: PoseEstimator_def Let_def is_zero_def Time0_def)
  ultimately show "predict_result ext ?c stamp acc gyro = Inr (?c\<lparr>prev_stamp := stamp\<rparr>)"
    by (intro predict_result_absorbed [of _ _ d]) simp_all
next
  fix est'
  assume "predict_result ext est stamp acc gyro = Inr est'"
  then show "prev_stamp est' = stamp"
    by (rule predict_result_fields)
next
  fix d d'
  assume b: "time_minus stamp (init_stamp est) = Inr d
         \<and> \<not> toSec d < cool_time_duration est
         \<and> \<not> is_zero (prev_stamp est)
         \<and> toNSec (prev_stamp est) < toNSec stamp
         \<and> time_minus stamp (prev_stamp est) = Inr d'"
  then show dt: "toSec d' = real_of_int (toNSec stamp - toNSec (prev_stamp est)) / 1000000000"
    by (intro time_minus_toSec) blast
  with b show "0 < toSec d'"
    by simp
  from b have "prev_stamp est \<noteq> stamp"
    by auto
  with b show "predict_result ext est stamp acc gyro =
              Inr (est\<lparr>prev_stamp := stamp,
                      ukf := pose_ukf_predict ext
                        ((ukf est)\<lparr>ukf_process_noise :=
                                     mat_scale (process_noise est) (toSec d'),
                                   system := (system (ukf est))\<lparr>dt := toSec d'\<rparr>\<rparr>)
                        [vx acc, vy acc, vz acc, vx gyro, vy gyro, vz gyro]\<rparr>)"
    by (intro predict_result_runs [of _ _ d]) blast+
  show "length (mat_scale (process_noise est) (toSec d')) = length (process_noise est)"
    by (rule mat_scale_nth)
next
  fix d d' :: ros_duration and i
  assume "i < length (process_noise est)"
  then show "length (mat_scale (process_noise est) (toSec d') ! i)
               = length (process_noise est ! i)"
    by (rule mat_scale_nth)
next
  fix d d' :: ros_duration and i j
  assume "i < length (process_noise est)" "j < length (process_noise est ! i)"
  then show "mat_scale (process_noise est) (toSec d') ! i ! j
               = process_noise est ! i ! j * toSec d'"
    by (rule mat_scale_nth)
next
  fix e
  assume c: "time_minus stamp (init_stamp est) = Inl e
            \<or> (\<exists>d. time_minus stamp (init_stamp est) = Inr d
                   \<and> \<not> toSec d < cool_time_duration est \<and> \<not> is_zero (prev_stamp est)
                   \<and> prev_stamp est \<noteq> stamp \<and> time_minus stamp (prev_stamp est) = Inl e)"
  then show r: "predict_result ext est stamp acc gyro = Inl e"
    by (rule predict_result_throws)
  then show "predict ext est stamp acc gyro = est"
    by (rule predict_of_result)
next
  show "(\<exists>d. time_minus stamp (prev_stamp est) = Inr d)
       = int32_range ((toNSec stamp - toNSec (prev_stamp est)) div 1000000000)"
    by (rule time_minus_returns)
next
  show "(\<exists>d. time_minus stamp (init_stamp est) = Inr d)
       = int32_range ((toNSec stamp - toNSec (init_stamp est)) div 1000000000)"
    by (rule time_minus_returns)
qed

theorem predict_gating_witness:
  "predict_result stand_in estimator0 (stamp_of 100 100000000) (Vector3 0 0 1) (Vector3 0 0 0)
     = Inr (estimator0\<lparr>prev_stamp := stamp_of 100 100000000\<rparr>)
   \<and> predict_result stand_in (estimator0\<lparr>prev_stamp := stamp_of 100 100000000\<rparr>)
         (stamp_of 100 500000000) (Vector3 0 0 1) (Vector3 0 0 0)
     = Inr (estimator0\<lparr>prev_stamp := stamp_of 100 500000000\<rparr>)
   \<and> dt (system (ukf (predict stand_in (estimator0\<lparr>prev_stamp := stamp_of 100 500000000\<rparr>)
         (stamp_of 102 500000000) (Vector3 0 0 1) (Vector3 0 0 0)))) = 2
   \<and> ukf_process_noise (ukf (predict stand_in (estimator0\<lparr>prev_stamp := stamp_of 100 500000000\<rparr>)
         (stamp_of 102 500000000) (Vector3 0 0 1) (Vector3 0 0 0))) ! 0 ! 0 = 2
   \<and> ukf_process_noise (ukf (predict stand_in (estimator0\<lparr>prev_stamp := stamp_of 100 500000000\<rparr>)
         (stamp_of 102 500000000) (Vector3 0 0 1) (Vector3 0 0 0))) ! 6 ! 6 = 1
   \<and> cov (ukf (predict stand_in (estimator0\<lparr>prev_stamp := stamp_of 100 500000000\<rparr>)
         (stamp_of 102 500000000) (Vector3 0 0 1) (Vector3 0 0 0))) ! 6 ! 6 = 101 / 100
   \<and> predict_result stand_in (estimator0\<lparr>prev_stamp := stamp_of 100 500000000\<rparr>)
         (stamp_of 3000000000 0) (Vector3 0 0 1) (Vector3 0 0 0)
     = Inl DurationOutOfRange"
proof -
  let ?a = "Vector3 0 0 1" and ?g = "Vector3 0 0 0"
  let ?e1 = "estimator0\<lparr>prev_stamp := stamp_of 100 100000000\<rparr>"
  let ?e5 = "estimator0\<lparr>prev_stamp := stamp_of 100 500000000\<rparr>"
  note t = predict_gating [where ext = stand_in and acc = ?a and gyro = ?g]
  have 1: "predict_result stand_in estimator0 (stamp_of 100 100000000) ?a ?g
           = Inr (estimator0\<lparr>prev_stamp := stamp_of 100 100000000\<rparr>)"
    by (rule t [where est = estimator0 and stamp = "stamp_of 100 100000000",
                THEN conjunct1, rule_format, of "\<lparr>dsec = 0, dnsec = 100000000\<rparr>",
                THEN conjunct1])
       (simp add: time_eval estimator0_fields)
  have "predict_result stand_in ?e1 (stamp_of 100 500000000) ?a ?g
           = Inr (?e1\<lparr>prev_stamp := stamp_of 100 500000000\<rparr>)"
    by (rule t [where est = ?e1 and stamp = "stamp_of 100 500000000",
                THEN conjunct1, rule_format, of "\<lparr>dsec = 0, dnsec = 500000000\<rparr>",
                THEN conjunct1])
       (simp add: time_eval estimator0_fields)
  then have 2: "predict_result stand_in ?e1 (stamp_of 100 500000000) ?a ?g = Inr ?e5"
    by simp
  note run = t [where est = ?e5 and stamp = "stamp_of 102 500000000",
                THEN conjunct2, THEN conjunct2, THEN conjunct2, THEN conjunct1, rule_format,
                of "\<lparr>dsec = 2, dnsec = 500000000\<rparr>" "\<lparr>dsec = 2, dnsec = 0\<rparr>"]
  have h: "time_minus (stamp_of 102 500000000) (init_stamp ?e5)
             = Inr \<lparr>dsec = 2, dnsec = 500000000\<rparr>
           \<and> \<not> toSec \<lparr>dsec = 2, dnsec = 500000000\<rparr> < cool_time_duration ?e5
           \<and> \<not> is_zero (prev_stamp ?e5)
           \<and> toNSec (prev_stamp ?e5) < toNSec (stamp_of 102 500000000)
           \<and> time_minus (stamp_of 102 500000000) (prev_stamp ?e5) = Inr \<lparr>dsec = 2, dnsec = 0\<rparr>"
    by (simp add: time_eval estimator0_fields)
  have "predict_result stand_in ?e5 (stamp_of 102 500000000) ?a ?g =
          Inr (?e5\<lparr>prev_stamp := stamp_of 102 500000000,
                  ukf := pose_ukf_predict stand_in
                    ((ukf ?e5)\<lparr>ukf_process_noise :=
                                 mat_scale (process_noise ?e5) (toSec \<lparr>dsec = 2, dnsec = 0\<rparr>),
                               system := (system (ukf ?e5))
                                 \<lparr>dt := toSec \<lparr>dsec = 2, dnsec = 0\<rparr>\<rparr>\<rparr>)
                    [vx ?a, vy ?a, vz ?a, vx ?g, vy ?g, vz ?g]\<rparr>)"
    by (rule run [OF h, THEN conjunct2, THEN conjunct2, THEN conjunct1])
  then have p: "predict stand_in ?e5 (stamp_of 102 500000000) ?a ?g =
          ?e5\<lparr>prev_stamp := stamp_of 102 500000000,
                  ukf := pose_ukf_predict stand_in
                    ((ukf ?e5)\<lparr>ukf_process_noise :=
                                 mat_scale (process_noise ?e5) (toSec \<lparr>dsec = 2, dnsec = 0\<rparr>),
                               system := (system (ukf ?e5))
                                 \<lparr>dt := toSec \<lparr>dsec = 2, dnsec = 0\<rparr>\<rparr>\<rparr>)
                    [vx ?a, vy ?a, vz ?a, vx ?g, vy ?g, vz ?g]\<rparr>"
    by (rule predict_of_result)
  have 3: "dt (system (ukf (predict stand_in ?e5 (stamp_of 102 500000000) ?a ?g))) = 2"
    unfolding p by (simp add: stand_in_def additive_predict_def toSec_def)
  note scaled = run [OF h, THEN conjunct2, THEN conjunct2, THEN conjunct2, THEN conjunct2,
                    rule_format, THEN conjunct2, rule_format]
  have pn: "ukf_process_noise (ukf (predict stand_in ?e5 (stamp_of 102 500000000) ?a ?g))
            = mat_scale (process_noise ?e5) (toSec \<lparr>dsec = 2, dnsec = 0\<rparr>)"
    unfolding p by (simp add: stand_in_def additive_predict_def)
  have 4: "ukf_process_noise (ukf (predict stand_in ?e5 (stamp_of 102 500000000) ?a ?g)) ! 0 ! 0
           = 2"
    unfolding pn using scaled [of 0 0] by (simp add: process_noise_estimator0 toSec_def)
  have 5: "ukf_process_noise (ukf (predict stand_in ?e5 (stamp_of 102 500000000) ?a ?g)) ! 6 ! 6
           = 1"
    unfolding pn using scaled [of 6 6] by (simp add: process_noise_estimator0 toSec_def)
  have 6: "cov (ukf (predict stand_in ?e5 (stamp_of 102 500000000) ?a ?g)) ! 6 ! 6 = 101 / 100"
    unfolding p
    apply (simp add: stand_in_def additive_predict_def toSec_def)
    apply (simp add: estimator0_def PoseEstimator_def Let_def UnscentedKalmanFilterX_def)
    apply (simp add: mat_add_def mat_scale_def Identity_def scale_middleRows_def rows_def cols_def
             upt_16)
    done
  have 7: "predict_result stand_in ?e5 (stamp_of 3000000000 0) ?a ?g = Inl DurationOutOfRange"
    by (rule t [where est = ?e5 and stamp = "stamp_of 3000000000 0",
                THEN conjunct2, THEN conjunct2, THEN conjunct2, THEN conjunct2, THEN conjunct1,
                rule_format, THEN conjunct1])
       (simp add: time_eval estimator0_fields)
  from 1 2 3 4 5 6 7 show ?thesis
    by blast
qed

text \<open>
  The claim as it was stated (every call past the cool time with a recorded, strictly
  smaller previous stamp runs the prediction) fails where the elapsed time does not fit
  a ROS duration: an estimator constructed at 100 s with a cool time of 1 s, a first
  call at 1 s, absorbed, then a call at 2147483700 s. The time since construction,
  2147483600 s, fits 32 bits and is past the cool time; the time since the previous
  stamp, 2147483699 s, does not fit, and the call throws before it predicts or writes.
  With the first call at 101 s and the second one at 2147483800 s, the time since
  construction does not fit, and the call throws in the test of the cool time.
\<close>

theorem predict_unrepresentable_counterexample:
  "\<not> is_zero (prev_stamp (predict stand_in estimator0 (stamp_of 1 0) (Vector3 0 0 0) (Vector3 0 0 0)))
   \<and> toNSec (prev_stamp (predict stand_in estimator0 (stamp_of 1 0) (Vector3 0 0 0) (Vector3 0 0 0)))
       < toNSec (stamp_of 2147483700 0)
   \<and> time_minus (stamp_of 2147483700 0)
        (init_stamp (predict stand_in estimator0 (stamp_of 1 0) (Vector3 0 0 0) (Vector3 0 0 0)))
       = Inr \<lparr>dsec = 2147483600, dnsec = 0\<rparr>
   \<and> \<not> toSec \<lparr>dsec = 2147483600, dnsec = 0\<rparr>
         < cool_time_duration
             (predict stand_in estimator0 (stamp_of 1 0) (Vector3 0 0 0) (Vector3 0 0 0))
   \<and> predict_result stand_in
        (predict stand_in estimator0 (stamp_of 1 0) (Vector3 0 0 0) (Vector3 0 0 0))
        (stamp_of 2147483700 0) (Vector3 0 0 0) (Vector3 0 0 0)
       = Inl DurationOutOfRange
   \<and> predict stand_in
        (predict stand_in estimator0 (stamp_of 1 0) (Vector3 0 0 0) (Vector3 0 0 0))
        (stamp_of 2147483700 0) (Vector3 0 0 0) (Vector3 0 0 0)
       = predict stand_in estimator0 (stamp_of 1 0) (Vector3 0 0 0) (Vector3 0 0 0)
   \<and> \<not> is_zero (prev_stamp (predict stand_in estimator0 (stamp_of 101 0) (Vector3 0 0 0) (Vector3 0 0 0)))
   \<and> toNSec (prev_stamp (predict stand_in estimator0 (stamp_of 101 0) (Vector3 0 0 0) (Vector3 0 0 0)))
       < toNSec (stamp_of 2147483800 0)
   \<and> cool_time_duration
         (predict stand_in estimator0 (stamp_of 101 0) (Vector3 0 0 0) (Vector3 0 0 0))
       \<le> real_of_int (toNSec (stamp_of 2147483800 0)
            - toNSec (init_stamp
                (predict stand_in estimator0 (stamp_of 101 0) (Vector3 0 0 0) (Vector3 0 0 0))))
           / 1000000000
   \<and> predict_result stand_in
        (predict stand_in estimator0 (stamp_of 101 0) (Vector3 0 0 0) (Vector3 0 0 0))
        (stamp_of 2147483800 0) (Vector3 0 0 0) (Vector3 0 0 0)
       = Inl DurationOutOfRange
   \<and> predict stand_in
        (predict stand_in estimator0 (stamp_of 101 0) (Vector3 0 0 0) (Vector3 0 0 0))
        (stamp_of 2147483800 0) (Vector3 0 0 0) (Vector3 0 0 0)
       = predict stand_in estimator0 (stamp_of 101 0) (Vector3 0 0 0) (Vector3 0 0 0)"
proof -
  let ?z = "Vector3 0 0 0"
  let ?e = "estimator0\<lparr>prev_stamp := stamp_of 1 0\<rparr>"
  let ?f = "estimator0\<lparr>prev_stamp := stamp_of 101 0\<rparr>"
  have "predict_result stand_in estimator0 (stamp_of 1 0) ?z ?z = Inr ?e"
    by (rule predict_result_absorbed [of _ _ "\<lparr>dsec = - 99, dnsec = 0\<rparr>"])
       (simp_all add: estimator0_fields time_eval)
  then have e: "predict stand_in estimator0 (stamp_of 1 0) ?z ?z = ?e"
    by (rule predict_of_result)
  have 1: "\<not> is_zero (prev_stamp ?e)"
    and 2: "toNSec (prev_stamp ?e) < toNSec (stamp_of 2147483700 0)"
    and 3: "time_minus (stamp_of 2147483700 0) (init_stamp ?e)
            = Inr \<lparr>dsec = 2147483600, dnsec = 0\<rparr>"
    and 4: "\<not> toSec \<lparr>dsec = 2147483600, dnsec = 0\<rparr> < cool_time_duration ?e"
    and 5: "time_minus (stamp_of 2147483700 0) (prev_stamp ?e) = Inl DurationOutOfRange"
    and 6: "prev_stamp ?e \<noteq> stamp_of 2147483700 0"
    by (simp_all add: time_eval estimator0_fields)
  have 7: "predict_result stand_in ?e (stamp_of 2147483700 0) ?z ?z = Inl DurationOutOfRange"
    by (rule predict_result_throws) (use 1 3 4 5 6 in blast)
  then have 8: "predict stand_in ?e (stamp_of 2147483700 0) ?z ?z = ?e"
    by (rule predict_of_result)
  have "predict_result stand_in estimator0 (stamp_of 101 0) ?z ?z = Inr ?f"
    by (rule predict_result_absorbed [of _ _ "\<lparr>dsec = 1, dnsec = 0\<rparr>"])
       (simp_all add: estimator0_fields time_eval)
  then have f: "predict stand_in estimator0 (stamp_of 101 0) ?z ?z = ?f"
    by (rule predict_of_result)
  have 9: "\<not> is_zero (prev_stamp ?f)"
    and 10: "toNSec (prev_stamp ?f) < toNSec (stamp_of 2147483800 0)"
    and 11: "cool_time_duration ?f
             \<le> real_of_int (toNSec (stamp_of 2147483800 0) - toNSec (init_stamp ?f)) / 1000000000"
    and 12: "time_minus (stamp_of 2147483800 0) (init_stamp ?f) = Inl DurationOutOfRange"
    by (simp_all add: time_eval estimator0_fields)
  have 13: "predict_result stand_in ?f (stamp_of 2147483800 0) ?z ?z = Inl DurationOutOfRange"
    by (rule predict_result_throws) (use 12 in blast)
  then have 14: "predict stand_in ?f (stamp_of 2147483800 0) ?z ?z = ?f"
    by (rule predict_of_result)
  have first: "\<not> is_zero (prev_stamp ?e)
      \<and> toNSec (prev_stamp ?e) < toNSec (stamp_of 2147483700 0)
      \<and> time_minus (stamp_of 2147483700 0) (init_stamp ?e) = Inr \<lparr>dsec = 2147483600, dnsec = 0\<rparr>
      \<and> \<not> toSec \<lparr>dsec = 2147483600, dnsec = 0\<rparr> < cool_time_duration ?e
      \<and> predict_result stand_in ?e (stamp_of 2147483700 0) ?z ?z = Inl DurationOutOfRange
      \<and> predict stand_in ?e (stamp_of 2147483700 0) ?z ?z = ?e"
    using 1 2 3 4 7 8 by blast
  have second: "\<not> is_zero (prev_stamp ?f)
      \<and> toNSec (prev_stamp ?f) < toNSec (stamp_of 2147483800 0)
      \<and> cool_time_duration ?f
          \<le> real_of_int (toNSec (stamp_of 2147483800 0) - toNSec (init_stamp ?f)) / 1000000000
      \<and> predict_result stand_in ?f (stamp_of 2147483800 0) ?z ?z = Inl DurationOutOfRange
      \<and> predict stand_in ?f (stamp_of 2147483800 0) ?z ?z = ?f"
    using 9 10 11 13 14 by blast
  from first second show ?thesis
    unfolding e f by blast
qed

subsection \<open>Quaternions\<close>

lemma coeffs_dot_scale_minus: "coeffs_dot a (coeffs_scale q (- 1)) = - coeffs_dot a q"
  by (simp add: coeffs_dot_def coeffs_scale_def)

lemma sign_aligned_dot: "0 \<le> coeffs_dot ref (sign_aligned ref q)"
  by (simp add: sign_aligned_def coeffs_dot_scale_minus)

lemma coeffs_dot_self_nonneg: "0 \<le> coeffs_dot q q"
  by (simp add: coeffs_dot_def)

lemma coeffs_dot_self_zero_iff:
  "coeffs_dot q q = 0 \<longleftrightarrow> qw q = 0 \<and> qx q = 0 \<and> qy q = 0 \<and> qz q = 0"
proof -
  have "coeffs_dot q q = (qx q)\<^sup>2 + (qy q)\<^sup>2 + (qz q)\<^sup>2 + (qw q)\<^sup>2"
    by (simp add: coeffs_dot_def power2_eq_square)
  moreover have "(qx q)\<^sup>2 + (qy q)\<^sup>2 + (qz q)\<^sup>2 + (qw q)\<^sup>2 = 0
                 \<longleftrightarrow> qx q = 0 \<and> qy q = 0 \<and> qz q = 0 \<and> qw q = 0"
    by (smt (verit) zero_le_power2 power2_eq_iff_nonneg power_zero_numeral sum_power2_eq_zero_iff zero_eq_power2)
  ultimately show ?thesis by auto
qed

lemma unit_after_division:
  fixes a b c d s :: real
  assumes "0 < s" and "a * a + b * b + c * c + d * d = s * s"
  shows "(a / s) * (a / s) + (b / s) * (b / s) + (c / s) * (c / s) + (d / s) * (d / s) = 1"
proof -
  have "(a / s) * (a / s) + (b / s) * (b / s) + (c / s) * (c / s) + (d / s) * (d / s)
        = (a * a + b * b + c * c + d * d) / (s * s)"
    by (simp add: add_divide_distrib)
  also have "\<dots> = (s * s) / (s * s)"
    by (simp only: assms(2))
  also have "\<dots> = 1"
    using assms(1) by simp
  finally show ?thesis .
qed

lemma quat_norm_normalized:
  assumes "coeffs_dot q q \<noteq> 0"
  shows "quat_norm (normalized q) = 1"
proof -
  define s where "s = sqrt (coeffs_dot q q)"
  have pos: "0 < coeffs_dot q q"
    using assms coeffs_dot_self_nonneg [of q] by simp
  then have s_pos: "0 < s"
    by (simp add: s_def)
  have n: "normalized q = Quaternion (qw q / s) (qx q / s) (qy q / s) (qz q / s)"
    using pos by (simp add: normalized_def Let_def s_def)
  have "s * s = coeffs_dot q q"
    using pos by (simp add: s_def)
  then have sq: "qx q * qx q + qy q * qy q + qz q * qz q + qw q * qw q = s * s"
    by (simp add: coeffs_dot_def)
  have "coeffs_dot (normalized q) (normalized q) = 1"
    unfolding n coeffs_dot_def quaternion.sel
    by (rule unit_after_division [OF s_pos sq])
  then show ?thesis
    by (simp add: quat_norm_def)
qed

lemma normalized_examples:
  "normalized (Quaternion (- 1) 0 0 0) = Quaternion (- 1) 0 0 0"
  "normalized (Quaternion 2 0 0 0) = Quaternion 1 0 0 0"
  by (simp_all add: normalized_def coeffs_dot_def Let_def)

subsection \<open>What \<open>correct\<close> and \<open>predict_odom\<close> write\<close>

lemma init_guess_stamp [simp]:
  "init_guess ext (est\<lparr>last_correction_stamp := s\<rparr>) = init_guess ext est"
  by (simp add: init_guess_def matrix_def quat_def pos_def split: option.splits)

lemma observation_stamp [simp]:
  "observation ext (est\<lparr>last_correction_stamp := s\<rparr>) tr = observation ext est tr"
  by (simp add: observation_def quat_def)

lemma matrix_stamp [simp]:
  "matrix ext (est\<lparr>last_correction_stamp := s\<rparr>) = matrix ext est"
  by (simp add: matrix_def quat_def pos_def)

lemma odom_matrix_stamp [simp]:
  "odom_matrix ext (est\<lparr>last_correction_stamp := s\<rparr>) = odom_matrix ext est"
  by (simp add: odom_matrix_def odom_quat_def odom_pos_def split: option.splits)

lemma correct_ukf:
  "ukf (snd (correct ext est stamp cloud))
     = pose_ukf_correct ext (ukf est)
         (observation ext est (snd (snd (align ext (registration est) cloud (init_guess ext est)))))"
  by (simp add: correct_def Let_def split: prod.splits option.splits)

lemma correct_odom_ukf:
  "odom_ukf (snd (correct ext est stamp cloud))
     = map_option (\<lambda>ou. odom_ukf_correct ext ou
         (observation ext est (snd (snd (align ext (registration est) cloud (init_guess ext est))))))
        (odom_ukf est)"
  by (simp add: correct_def Let_def split: prod.splits option.splits)

lemma correct_eq:
  "correct ext est stamp cloud =
    (let r = align ext (registration est) cloud (init_guess ext est);
         tr = snd (snd r);
         z = observation ext est tr
     in (fst (snd r),
         est\<lparr>last_correction_stamp := stamp, registration := fst r,
             ukf := pose_ukf_correct ext (ukf est) z,
             imu_pred_error := Some (mat_mul (inverse_m ext (matrix ext est)) tr),
             odom_ukf := map_option (\<lambda>ou. odom_ukf_correct ext ou z) (odom_ukf est),
             odom_pred_error := (case odom_ukf est of None \<Rightarrow> odom_pred_error est
                | Some ou \<Rightarrow> map_option (\<lambda>g. mat_mul (inverse_m ext g) tr) (odom_matrix ext est))\<rparr>))"
  by (simp add: correct_def Let_def split: prod.splits option.splits)

lemma predict_odom_eq:
  "predict_odom ext est odom_delta =
     est\<lparr>odom_ukf := Some (odom_ukf_predict ext
             (setProcessNoiseCov (case odom_ukf est of None \<Rightarrow> new_odom_ukf est | Some ou \<Rightarrow> ou)
                (odom_noise ext odom_delta))
             (odom_control ext odom_delta))\<rparr>"
  by (simp add: predict_odom_def Let_def)

lemma predict_odom_ukf [simp]: "odom_ukf (predict ext est stamp acc gyro) = odom_ukf est"
  by (simp add: predict_def predict_result_def Let_def split: sum.splits)

lemma predict_odom_ukf_update:
  "predict ext (est\<lparr>odom_ukf := x\<rparr>) stamp acc gyro
     = (predict ext est stamp acc gyro)\<lparr>odom_ukf := x\<rparr>"
  by (simp add: predict_def predict_result_def Let_def split: sum.splits)

lemma new_odom_ukf_fields:
  "mean (new_odom_ukf est)
     = [mean (ukf est) ! 0, mean (ukf est) ! 1, mean (ukf est) ! 2,
        mean (ukf est) ! 6, mean (ukf est) ! 7, mean (ukf est) ! 8, mean (ukf est) ! 9]"
  "cov (new_odom_ukf est) =
     [[1 / 100, 0, 0, 0, 0, 0, 0],
      [0, 1 / 100, 0, 0, 0, 0, 0],
      [0, 0, 1 / 100, 0, 0, 0, 0],
      [0, 0, 0, 1 / 100, 0, 0, 0],
      [0, 0, 0, 0, 1 / 100, 0, 0],
      [0, 0, 0, 0, 0, 1 / 100, 0],
      [0, 0, 0, 0, 0, 0, 1 / 100]]"
  by (simp_all add: new_odom_ukf_def Let_def UnscentedKalmanFilterX_def mat_scale_def
        Identity_def upt_7)

lemma PoseEstimator_odom_ukf: "odom_ukf (PoseEstimator sys reg start p q cool) = None"
  by (simp add: PoseEstimator_def Let_def)

lemma estimator_at_fields:
  "mean (ukf (estimator_at p q)) = [vx p, vy p, vz p, 0, 0, 0, qw q, qx q, qy q, qz q, 0, 0, 0, 0, 0, 0]"
  "odom_ukf (estimator_at p q) = None"
  "registration (estimator_at p q) = ()"
  by (simp_all add: estimator_at_def PoseEstimator_def Let_def UnscentedKalmanFilterX_def)

lemma quat_estimator_at: "quat (estimator_at p q) = normalized q"
  by (simp add: quat_def estimator_at_fields)

text \<open>The odometry filter exists after a sequence of calls exactly when it existed before
  or one of the calls is \<open>predict_odom\<close>.\<close>

lemma apply_call_odom_ukf:
  "odom_ukf (apply_call ext est c) \<noteq> None \<longleftrightarrow> odom_ukf est \<noteq> None \<or> is_predict_odom c"
  by (cases c) (auto simp: predict_odom_eq correct_odom_ukf)

lemma run_odom_ukf:
  "odom_ukf (run ext est cs) \<noteq> None \<longleftrightarrow> odom_ukf est \<noteq> None \<or> (\<exists>c\<in>set cs. is_predict_odom c)"
proof (induction cs arbitrary: est)
  case Nil
  show ?case by simp
next
  case (Cons c cs)
  have "odom_ukf (run ext est (c # cs)) \<noteq> None
        \<longleftrightarrow> odom_ukf (apply_call ext est c) \<noteq> None \<or> (\<exists>c\<in>set cs. is_predict_odom c)"
    using Cons.IH [of "apply_call ext est c"] by simp
  also have "\<dots> \<longleftrightarrow> odom_ukf est \<noteq> None \<or> (\<exists>c\<in>set (c # cs). is_predict_odom c)"
    using apply_call_odom_ukf [of ext est c] by auto
  finally show ?case .
qed

text \<open>
  C4. In \<open>correct\<close>, the quaternion of the final transformation is negated exactly when
  its dot product with \<open>quat()\<close>, the normalized orientation of the inertial filter
  before the correction, is negative. The observation, its position followed by that
  quaternion, corrects the inertial filter and, when it exists, the odometry filter; its
  quaternion has a non-negative dot product with \<open>quat()\<close>.
\<close>

theorem correct_observation_sign:
  "(let trans' = snd (snd (align ext (registration est) cloud (init_guess ext est)));
        q = quaternion_of_rotation ext (block trans' 0 0 3 3);
        q' = (if coeffs_dot (quat est) q < 0 then coeffs_scale q (- 1) else q);
        z = [trans' ! 0 ! 3, trans' ! 1 ! 3, trans' ! 2 ! 3] @ [qw q', qx q', qy q', qz q']
    in ukf (snd (correct ext est stamp cloud)) = pose_ukf_correct ext (ukf est) z
       \<and> odom_ukf (snd (correct ext est stamp cloud))
           = map_option (\<lambda>ou. odom_ukf_correct ext ou z) (odom_ukf est)
       \<and> Quaternion (z ! 3) (z ! 4) (z ! 5) (z ! 6) = q'
       \<and> 0 \<le> coeffs_dot (quat est) (Quaternion (z ! 3) (z ! 4) (z ! 5) (z ! 6)))"
proof -
  define tr where "tr = snd (snd (align ext (registration est) cloud (init_guess ext est)))"
  define q where "q = quaternion_of_rotation ext (block tr 0 0 3 3)"
  define q' where "q' = (if coeffs_dot (quat est) q < 0 then coeffs_scale q (- 1) else q)"
  define z where "z = [tr ! 0 ! 3, tr ! 1 ! 3, tr ! 2 ! 3] @ [qw q', qx q', qy q', qz q']"
  have obs: "observation ext est tr = z"
    by (simp add: observation_def z_def q'_def q_def sign_aligned_def translation_def Let_def)
  have 1: "ukf (snd (correct ext est stamp cloud)) = pose_ukf_correct ext (ukf est) z"
    by (simp add: correct_ukf tr_def [symmetric] obs)
  have 2: "odom_ukf (snd (correct ext est stamp cloud))
           = map_option (\<lambda>ou. odom_ukf_correct ext ou z) (odom_ukf est)"
    by (simp add: correct_odom_ukf tr_def [symmetric] obs)
  have 3: "Quaternion (z ! 3) (z ! 4) (z ! 5) (z ! 6) = q'"
    by (simp add: z_def)
  have "q' = sign_aligned (quat est) q"
    by (simp add: q'_def sign_aligned_def)
  then have 4: "0 \<le> coeffs_dot (quat est) (Quaternion (z ! 3) (z ! 4) (z ! 5) (z ! 6))"
    by (simp add: 3 sign_aligned_dot)
  show ?thesis
    using 1 2 3 4 unfolding Let_def tr_def [symmetric] q_def [symmetric] q'_def [symmetric] z_def [symmetric]
    by blast
qed

theorem correct_observation_sign_witness:
  "ukf (snd (correct stand_in (estimator_at (Vector3 0 0 0) (Quaternion (- 1) 0 0 0)) (stamp_of 102 0) ()))
     = pose_ukf_correct stand_in (ukf (estimator_at (Vector3 0 0 0) (Quaternion (- 1) 0 0 0)))
         [1, 0, 0, - 1, 0, 0, 0]
   \<and> 0 \<le> coeffs_dot (quat (estimator_at (Vector3 0 0 0) (Quaternion (- 1) 0 0 0))) (Quaternion (- 1) 0 0 0)"
proof -
  have a: "align stand_in = (\<lambda>reg cloud guess. (reg, cloud, stub_transformation))"
    and q: "quaternion_of_rotation stand_in = (\<lambda>R. Quaternion 1 0 0 0)"
    by (simp_all add: stand_in_def)
  show ?thesis
    using correct_observation_sign
            [of stand_in "estimator_at (Vector3 0 0 0) (Quaternion (- 1) 0 0 0)" "()" "stamp_of 102 0"]
    by (simp add: Let_def a q quat_estimator_at normalized_examples coeffs_dot_def
          coeffs_scale_def stub_transformation_def)
qed

text \<open>
  C6. Every \<open>predict_odom\<close> call hands the odometry filter's prediction a filter (the
  existing one, or the one just created) whose process noise is diagonal: three entries
  \<open>norm t + 0.001\<close> for the translation \<open>t\<close> of the increment, four entries
  \<open>(1 - |w|) + 0.001\<close> for the quaternion of its rotation block, zero elsewhere.
\<close>

theorem odom_noise_blocks:
  "(let n = norm3 (translation odom_delta) + 1 / 1000;
        r = (1 - \<bar>qw (quaternion_of_rotation ext (block odom_delta 0 0 3 3))\<bar>) + 1 / 1000;
        noise = [[n, 0, 0, 0, 0, 0, 0],
                 [0, n, 0, 0, 0, 0, 0],
                 [0, 0, n, 0, 0, 0, 0],
                 [0, 0, 0, r, 0, 0, 0],
                 [0, 0, 0, 0, r, 0, 0],
                 [0, 0, 0, 0, 0, r, 0],
                 [0, 0, 0, 0, 0, 0, r]];
        u = (case odom_ukf est of None \<Rightarrow> new_odom_ukf est | Some ou \<Rightarrow> ou)
    in odom_noise ext odom_delta = noise
       \<and> predict_odom ext est odom_delta
           = est\<lparr>odom_ukf :=
                   Some (odom_ukf_predict ext (u\<lparr>ukf_process_noise := noise\<rparr>)
                           (odom_control ext odom_delta))\<rparr>)"
proof -
  have noise: "odom_noise ext odom_delta =
     (let n = norm3 (translation odom_delta) + 1 / 1000;
          r = (1 - \<bar>qw (quaternion_of_rotation ext (block odom_delta 0 0 3 3))\<bar>) + 1 / 1000
      in [[n, 0, 0, 0, 0, 0, 0],
          [0, n, 0, 0, 0, 0, 0],
          [0, 0, n, 0, 0, 0, 0],
          [0, 0, 0, r, 0, 0, 0],
          [0, 0, 0, 0, r, 0, 0],
          [0, 0, 0, 0, 0, r, 0],
          [0, 0, 0, 0, 0, 0, r]])"
    by (simp add: odom_noise_def Let_def set_block_def mat_add_def mat_scale_def Identity_def
          rows_def cols_def upt_3 upt_4 upt_7)
  have call: "predict_odom ext est odom_delta
      = est\<lparr>odom_ukf :=
              Some (odom_ukf_predict ext
                      ((case odom_ukf est of None \<Rightarrow> new_odom_ukf est | Some ou \<Rightarrow> ou)
                         \<lparr>ukf_process_noise := odom_noise ext odom_delta\<rparr>)
                      (odom_control ext odom_delta))\<rparr>"
    by (simp add: predict_odom_eq setProcessNoiseCov_def)
  show ?thesis
    unfolding call unfolding noise by (simp add: Let_def)
qed

theorem odom_noise_blocks_witness:
  "odom_noise stand_in stub_transformation =
     [[1001 / 1000, 0, 0, 0, 0, 0, 0],
      [0, 1001 / 1000, 0, 0, 0, 0, 0],
      [0, 0, 1001 / 1000, 0, 0, 0, 0],
      [0, 0, 0, 1 / 1000, 0, 0, 0],
      [0, 0, 0, 0, 1 / 1000, 0, 0],
      [0, 0, 0, 0, 0, 1 / 1000, 0],
      [0, 0, 0, 0, 0, 0, 1 / 1000]]
   \<and> map_option ukf_process_noise
         (odom_ukf (predict_odom stand_in estimator0 stub_transformation))
       = Some [[1001 / 1000, 0, 0, 0, 0, 0, 0],
               [0, 1001 / 1000, 0, 0, 0, 0, 0],
               [0, 0, 1001 / 1000, 0, 0, 0, 0],
               [0, 0, 0, 1 / 1000, 0, 0, 0],
               [0, 0, 0, 0, 1 / 1000, 0, 0],
               [0, 0, 0, 0, 0, 1 / 1000, 0],
               [0, 0, 0, 0, 0, 0, 1 / 1000]]
   \<and> map_option ukf_process_noise
         (odom_ukf (predict_odom (stand_in\<lparr>quaternion_of_rotation := \<lambda>R. Quaternion (1 / 2) (1 / 2) (1 / 2) (1 / 2)\<rparr>)
                      (predict_odom stand_in estimator0 stub_transformation)
                      [[0, 0, 1, 3], [1, 0, 0, 4], [0, 1, 0, 0], [0, 0, 0, 1]]))
       = Some [[5001 / 1000, 0, 0, 0, 0, 0, 0],
               [0, 5001 / 1000, 0, 0, 0, 0, 0],
               [0, 0, 5001 / 1000, 0, 0, 0, 0],
               [0, 0, 0, 501 / 1000, 0, 0, 0],
               [0, 0, 0, 0, 501 / 1000, 0, 0],
               [0, 0, 0, 0, 0, 501 / 1000, 0],
               [0, 0, 0, 0, 0, 0, 501 / 1000]]"
proof -
  let ?ext = "stand_in\<lparr>quaternion_of_rotation := \<lambda>R. Quaternion (1 / 2) (1 / 2) (1 / 2) (1 / 2)\<rparr>"
  let ?d = "[[0, 0, 1, 3], [1, 0, 0, 4], [0, 1, 0, 0], [0, 0, 0, 1 :: real]]"
  have five: "sqrt 25 = 5"
    by (rule real_sqrt_unique) simp_all
  note t1 = odom_noise_blocks [of stub_transformation stand_in estimator0, unfolded Let_def]
  note t2 = odom_noise_blocks
              [of ?d ?ext "predict_odom stand_in estimator0 stub_transformation", unfolded Let_def]
  have n1: "norm3 (translation stub_transformation) = 1"
    and q1: "quaternion_of_rotation stand_in (block stub_transformation 0 0 3 3) = Quaternion 1 0 0 0"
    by (simp_all add: stub_transformation_def translation_def norm3_def stand_in_def)
  have n2: "norm3 (translation ?d) = 5"
    and q2: "quaternion_of_rotation ?ext (block ?d 0 0 3 3) = Quaternion (1 / 2) (1 / 2) (1 / 2) (1 / 2)"
    and p2: "odom_ukf_predict ?ext = additive_predict"
    by (simp_all add: translation_def norm3_def five stand_in_def)
  have 1: "odom_noise stand_in stub_transformation =
     [[1001 / 1000, 0, 0, 0, 0, 0, 0],
      [0, 1001 / 1000, 0, 0, 0, 0, 0],
      [0, 0, 1001 / 1000, 0, 0, 0, 0],
      [0, 0, 0, 1 / 1000, 0, 0, 0],
      [0, 0, 0, 0, 1 / 1000, 0, 0],
      [0, 0, 0, 0, 0, 1 / 1000, 0],
      [0, 0, 0, 0, 0, 0, 1 / 1000]]"
    using t1 [THEN conjunct1] unfolding n1 q1 by simp
  have 2: "map_option ukf_process_noise
         (odom_ukf (predict_odom stand_in estimator0 stub_transformation))
       = Some [[1001 / 1000, 0, 0, 0, 0, 0, 0],
               [0, 1001 / 1000, 0, 0, 0, 0, 0],
               [0, 0, 1001 / 1000, 0, 0, 0, 0],
               [0, 0, 0, 1 / 1000, 0, 0, 0],
               [0, 0, 0, 0, 1 / 1000, 0, 0],
               [0, 0, 0, 0, 0, 1 / 1000, 0],
               [0, 0, 0, 0, 0, 0, 1 / 1000]]"
    unfolding t1 [THEN conjunct2] n1 q1
    by (simp add: stand_in_def additive_predict_def)
  have 3: "map_option ukf_process_noise
         (odom_ukf (predict_odom ?ext (predict_odom stand_in estimator0 stub_transformation) ?d))
       = Some [[5001 / 1000, 0, 0, 0, 0, 0, 0],
               [0, 5001 / 1000, 0, 0, 0, 0, 0],
               [0, 0, 5001 / 1000, 0, 0, 0, 0],
               [0, 0, 0, 501 / 1000, 0, 0, 0],
               [0, 0, 0, 0, 501 / 1000, 0, 0],
               [0, 0, 0, 0, 0, 501 / 1000, 0],
               [0, 0, 0, 0, 0, 0, 501 / 1000]]"
    unfolding t2 [THEN conjunct2] n2 q2 p2
    by (simp add: additive_predict_def)
  from 1 2 3 show ?thesis
    by blast
qed

subsection \<open>The stand-ins, evaluated\<close>

lemma stand_in_fields:
  "pose_ukf_predict stand_in = additive_predict"
  "odom_ukf_predict stand_in = additive_predict"
  "odom_ukf_correct stand_in = (\<lambda>u z. u\<lparr>mean := z\<rparr>)"
  "inverse_m stand_in = diag_inverse"
  "quaternion_of_rotation stand_in = (\<lambda>R. Quaternion 1 0 0 0)"
  "toRotationMatrix stand_in = (\<lambda>q. Identity 3 3)"
  "align stand_in = (\<lambda>reg cloud guess. (reg, cloud, stub_transformation))"
  by (simp_all add: stand_in_def)

lemma additive_predict_mean [simp]: "mean (additive_predict u c) = mean u"
  by (simp add: additive_predict_def)

lemma setProcessNoiseCov_fields [simp]:
  "mean (setProcessNoiseCov u pn) = mean u" "cov (setProcessNoiseCov u pn) = cov u"
  by (simp_all add: setProcessNoiseCov_def)

text \<open>
  C7. \<open>quat()\<close> is the normalized quaternion of components 6 to 9 of the inertial
  mean, and has norm 1 whenever these four components are not all zero. With an odometry
  filter, \<open>odom_quat()\<close> is the normalized quaternion of components 3 to 6 of the
  odometry mean, and has norm 1 whenever these are not all zero. Nothing is assumed of
  the state vectors beyond that.
\<close>

theorem orientation_getters_normalized:
  "quat est = normalized (Quaternion (mean (ukf est) ! 6) (mean (ukf est) ! 7)
                            (mean (ukf est) ! 8) (mean (ukf est) ! 9))
   \<and> ((mean (ukf est) ! 6, mean (ukf est) ! 7, mean (ukf est) ! 8, mean (ukf est) ! 9)
          \<noteq> (0, 0, 0, 0)
        \<longrightarrow> quat_norm (quat est) = 1)
   \<and> (\<forall>ou. odom_ukf est = Some ou \<longrightarrow>
          odom_quat est
            = Some (normalized (Quaternion (mean ou ! 3) (mean ou ! 4) (mean ou ! 5) (mean ou ! 6)))
          \<and> ((mean ou ! 3, mean ou ! 4, mean ou ! 5, mean ou ! 6) \<noteq> (0, 0, 0, 0)
               \<longrightarrow> (\<exists>q. odom_quat est = Some q \<and> quat_norm q = 1)))"
proof (intro conjI impI allI)
  show "quat est = normalized (Quaternion (mean (ukf est) ! 6) (mean (ukf est) ! 7)
                            (mean (ukf est) ! 8) (mean (ukf est) ! 9))"
    by (simp add: quat_def)
next
  assume "(mean (ukf est) ! 6, mean (ukf est) ! 7, mean (ukf est) ! 8, mean (ukf est) ! 9)
            \<noteq> (0, 0, 0, 0)"
  then have "coeffs_dot
               (Quaternion (mean (ukf est) ! 6) (mean (ukf est) ! 7) (mean (ukf est) ! 8)
                  (mean (ukf est) ! 9))
               (Quaternion (mean (ukf est) ! 6) (mean (ukf est) ! 7) (mean (ukf est) ! 8)
                  (mean (ukf est) ! 9)) \<noteq> 0"
    by (simp add: coeffs_dot_self_zero_iff)
  then show "quat_norm (quat est) = 1"
    unfolding quat_def by (rule quat_norm_normalized)
next
  fix ou
  assume "odom_ukf est = Some ou"
  then show "odom_quat est
       = Some (normalized (Quaternion (mean ou ! 3) (mean ou ! 4) (mean ou ! 5) (mean ou ! 6)))"
    by (simp add: odom_quat_def)
next
  fix ou
  assume a: "odom_ukf est = Some ou"
    and b: "(mean ou ! 3, mean ou ! 4, mean ou ! 5, mean ou ! 6) \<noteq> (0, 0, 0, 0)"
  let ?q = "Quaternion (mean ou ! 3) (mean ou ! 4) (mean ou ! 5) (mean ou ! 6)"
  from b have "coeffs_dot ?q ?q \<noteq> 0"
    by (simp add: coeffs_dot_self_zero_iff)
  then have "quat_norm (normalized ?q) = 1"
    by (rule quat_norm_normalized)
  moreover from a have "odom_quat est = Some (normalized ?q)"
    by (simp add: odom_quat_def)
  ultimately show "\<exists>q. odom_quat est = Some q \<and> quat_norm q = 1"
    by blast
qed

theorem orientation_getters_normalized_witness:
  "quat (estimator_at (Vector3 1 2 3) (Quaternion 2 0 0 0)) = Quaternion 1 0 0 0
   \<and> quat_norm (quat (estimator_at (Vector3 1 2 3) (Quaternion 2 0 0 0))) = 1
   \<and> odom_quat (predict_odom stand_in (estimator_at (Vector3 1 2 3) (Quaternion 2 0 0 0))
                  stub_transformation) = Some (Quaternion 1 0 0 0)
   \<and> (\<exists>q. odom_quat (predict_odom stand_in (estimator_at (Vector3 1 2 3) (Quaternion 2 0 0 0))
                  stub_transformation) = Some q \<and> quat_norm q = 1)"
proof -
  let ?e = "estimator_at (Vector3 1 2 3) (Quaternion 2 0 0 0)"
  let ?d = "predict_odom stand_in ?e stub_transformation"
  let ?ou = "additive_predict
               (setProcessNoiseCov (new_odom_ukf ?e) (odom_noise stand_in stub_transformation))
               (odom_control stand_in stub_transformation)"
  have d: "odom_ukf ?d = Some ?ou"
    by (simp add: predict_odom_eq estimator_at_fields stand_in_fields)
  have m: "mean ?ou = [1, 2, 3, 2, 0, 0, 0]"
    by (simp add: new_odom_ukf_fields estimator_at_fields)
  note t1 = orientation_getters_normalized [of ?e]
  note t2 = orientation_getters_normalized [of ?d]
  have q1: "quat ?e = Quaternion 1 0 0 0"
    by (simp add: quat_estimator_at normalized_examples)
  have "(mean (ukf ?e) ! 6, mean (ukf ?e) ! 7, mean (ukf ?e) ! 8, mean (ukf ?e) ! 9) \<noteq> (0, 0, 0, 0)"
    by (simp add: estimator_at_fields)
  with t1 have n1: "quat_norm (quat ?e) = 1"
    by blast
  from t2 d have "odom_quat ?d
      = Some (normalized (Quaternion (mean ?ou ! 3) (mean ?ou ! 4) (mean ?ou ! 5) (mean ?ou ! 6)))"
    by blast
  then have oq: "odom_quat ?d = Some (Quaternion 1 0 0 0)"
    unfolding m by (simp add: normalized_examples)
  have "(mean ?ou ! 3, mean ?ou ! 4, mean ?ou ! 5, mean ?ou ! 6) \<noteq> (0, 0, 0, 0)"
    unfolding m by simp
  with t2 d have ex: "\<exists>q. odom_quat ?d = Some q \<and> quat_norm q = 1"
    by blast
  from q1 n1 oq ex show ?thesis
    by blast
qed

text \<open>
  C5. A newly constructed estimator has no odometry filter. \<open>predict_odom\<close> on an
  estimator without one creates it, with the mean taken from components 0 to 2 and 6 to
  9 of the inertial mean and the covariance 0.01 times the identity, and runs its first
  prediction. On an estimator that has one, \<open>predict_odom\<close>, \<open>predict\<close> and
  \<open>correct\<close> keep, predict or correct that filter: none of them builds a new one from
  the inertial mean, and after any sequence of calls the filter is still there.
\<close>

theorem odom_filter_created_once:
  "odom_ukf (PoseEstimator sys reg start p q cool) = None
   \<and> (odom_ukf est = None \<longrightarrow>
        odom_ukf (predict_odom ext est odom_delta)
          = Some (odom_ukf_predict ext
                    (setProcessNoiseCov (new_odom_ukf est) (odom_noise ext odom_delta))
                    (odom_control ext odom_delta))
        \<and> mean (new_odom_ukf est)
            = [mean (ukf est) ! 0, mean (ukf est) ! 1, mean (ukf est) ! 2,
               mean (ukf est) ! 6, mean (ukf est) ! 7, mean (ukf est) ! 8, mean (ukf est) ! 9]
        \<and> cov (new_odom_ukf est) =
            [[1 / 100, 0, 0, 0, 0, 0, 0],
             [0, 1 / 100, 0, 0, 0, 0, 0],
             [0, 0, 1 / 100, 0, 0, 0, 0],
             [0, 0, 0, 1 / 100, 0, 0, 0],
             [0, 0, 0, 0, 1 / 100, 0, 0],
             [0, 0, 0, 0, 0, 1 / 100, 0],
             [0, 0, 0, 0, 0, 0, 1 / 100]])
   \<and> (\<forall>ou. odom_ukf est = Some ou \<longrightarrow>
        odom_ukf (predict_odom ext est odom_delta)
          = Some (odom_ukf_predict ext (setProcessNoiseCov ou (odom_noise ext odom_delta))
                    (odom_control ext odom_delta))
        \<and> odom_ukf (predict ext est stamp acc gyro) = Some ou
        \<and> odom_ukf (snd (correct ext est stamp cloud))
            = Some (odom_ukf_correct ext ou
                      (observation ext est
                         (snd (snd (align ext (registration est) cloud (init_guess ext est)))))))
   \<and> (odom_ukf est \<noteq> None \<longrightarrow> odom_ukf (run ext est calls) \<noteq> None)"
proof -
  have "odom_ukf est \<noteq> None \<longrightarrow> odom_ukf (run ext est calls) \<noteq> None"
    using run_odom_ukf [of ext est calls] by blast
  then show ?thesis
    by (simp add: PoseEstimator_odom_ukf predict_odom_eq new_odom_ukf_fields correct_odom_ukf
          del: not_None_eq)
qed

theorem odom_filter_created_once_witness:
  "mean (new_odom_ukf (estimator_at (Vector3 1 2 3) (Quaternion 0 1 0 0))) = [1, 2, 3, 0, 1, 0, 0]
   \<and> odom_ukf (predict_odom stand_in (estimator_at (Vector3 1 2 3) (Quaternion 0 1 0 0))
                 stub_transformation)
       = Some (additive_predict
                 (setProcessNoiseCov (new_odom_ukf (estimator_at (Vector3 1 2 3) (Quaternion 0 1 0 0)))
                    (odom_noise stand_in stub_transformation))
                 (odom_control stand_in stub_transformation))
   \<and> odom_ukf (run stand_in
                 (predict_odom stand_in (estimator_at (Vector3 1 2 3) (Quaternion 0 1 0 0))
                    stub_transformation)
                 [Predict (stamp_of 102 0) (Vector3 0 0 1) (Vector3 0 0 0),
                  Correct (stamp_of 103 0) (), PredictOdom stub_transformation]) \<noteq> None"
proof -
  let ?e = "estimator_at (Vector3 1 2 3) (Quaternion 0 1 0 0)"
  let ?d = "predict_odom stand_in ?e stub_transformation"
  have n: "odom_ukf ?e = None"
    by (simp add: estimator_at_fields)
  have s: "odom_ukf ?d \<noteq> None"
    by (simp add: predict_odom_eq)
  let ?calls = "[Predict (stamp_of 102 0) (Vector3 0 0 1) (Vector3 0 0 0),
                  Correct (stamp_of 103 0) (), PredictOdom stub_transformation]"
  note t1 = odom_filter_created_once [where est = ?e and ext = stand_in
              and odom_delta = stub_transformation]
  note t2 = odom_filter_created_once [where est = ?d and ext = stand_in and calls = ?calls]
  note none_branch = t1 [THEN conjunct2, THEN conjunct1, rule_format, OF n]
  have a: "odom_ukf (predict_odom stand_in ?e stub_transformation)
      = Some (odom_ukf_predict stand_in
                (setProcessNoiseCov (new_odom_ukf ?e) (odom_noise stand_in stub_transformation))
                (odom_control stand_in stub_transformation))"
    and b: "mean (new_odom_ukf ?e)
            = [mean (ukf ?e) ! 0, mean (ukf ?e) ! 1, mean (ukf ?e) ! 2,
               mean (ukf ?e) ! 6, mean (ukf ?e) ! 7, mean (ukf ?e) ! 8, mean (ukf ?e) ! 9]"
    using none_branch by (rule conjunct1, rule conjunct2 [THEN conjunct1])
  have c: "odom_ukf (run stand_in ?d ?calls) \<noteq> None"
    by (rule t2 [THEN conjunct2, THEN conjunct2, THEN conjunct2, rule_format, OF s])
  from b have b': "mean (new_odom_ukf ?e) = [1, 2, 3, 0, 1, 0, 0]"
    by (simp add: estimator_at_fields)
  from a have a': "odom_ukf (predict_odom stand_in ?e stub_transformation)
      = Some (additive_predict
                (setProcessNoiseCov (new_odom_ukf ?e) (odom_noise stand_in stub_transformation))
                (odom_control stand_in stub_transformation))"
    by (simp add: stand_in_fields)
  from a' b' c show ?thesis
    by blast
qed

text \<open>
  C9. \<open>odom_pos\<close>, \<open>odom_quat\<close> and \<open>odom_matrix\<close> return a value exactly when the
  odometry filter exists. After construction and any sequence of calls, it exists exactly
  when one of the calls was \<open>predict_odom\<close>: before the first such call the three
  getters have no value (in the code, they dereference a null pointer).
\<close>

theorem odom_getters_defined_iff_active:
  "(odom_pos est \<noteq> None) = (odom_ukf est \<noteq> None)
   \<and> (odom_quat est \<noteq> None) = (odom_ukf est \<noteq> None)
   \<and> (odom_matrix ext est \<noteq> None) = (odom_ukf est \<noteq> None)
   \<and> (odom_ukf (run ext (PoseEstimator sys reg start p q cool) calls) \<noteq> None)
       = (\<exists>c\<in>set calls. is_predict_odom c)
   \<and> ((\<forall>c\<in>set calls. \<not> is_predict_odom c) \<longrightarrow>
        odom_pos (run ext (PoseEstimator sys reg start p q cool) calls) = None
        \<and> odom_quat (run ext (PoseEstimator sys reg start p q cool) calls) = None
        \<and> odom_matrix ext (run ext (PoseEstimator sys reg start p q cool) calls) = None)"
proof -
  let ?r = "run ext (PoseEstimator sys reg start p q cool) calls"
  have r: "(odom_ukf ?r \<noteq> None) = (\<exists>c\<in>set calls. is_predict_odom c)"
    using run_odom_ukf [of ext "PoseEstimator sys reg start p q cool" calls]
    by (simp add: PoseEstimator_odom_ukf)
  have 1: "(odom_pos e \<noteq> None) = (odom_ukf e \<noteq> None)" for e :: "'a pose_estimator"
    by (simp add: odom_pos_def split: option.splits)
  have 2: "(odom_quat e \<noteq> None) = (odom_ukf e \<noteq> None)" for e :: "'a pose_estimator"
    by (simp add: odom_quat_def split: option.splits)
  have 3: "(odom_matrix ext e \<noteq> None) = (odom_ukf e \<noteq> None)" for e :: "'a pose_estimator"
    by (simp add: odom_matrix_def odom_quat_def odom_pos_def split: option.splits)
  have "odom_pos ?r = None \<and> odom_quat ?r = None \<and> odom_matrix ext ?r = None"
    if "\<forall>c\<in>set calls. \<not> is_predict_odom c"
    using that r 1 [of ?r] 2 [of ?r] 3 [of ?r] by blast
  with r 1 [of est] 2 [of est] 3 [of est] show ?thesis
    by blast
qed

theorem odom_getters_defined_iff_active_witness:
  "odom_pos (run stand_in (estimator_at (Vector3 1 2 3) (Quaternion 1 0 0 0))
               [Predict (stamp_of 102 0) (Vector3 0 0 1) (Vector3 0 0 0),
                Correct (stamp_of 103 0) ()]) = None
   \<and> odom_matrix stand_in (run stand_in (estimator_at (Vector3 1 2 3) (Quaternion 1 0 0 0))
               [Predict (stamp_of 102 0) (Vector3 0 0 1) (Vector3 0 0 0),
                Correct (stamp_of 103 0) ()]) = None
   \<and> odom_pos (run stand_in (estimator_at (Vector3 1 2 3) (Quaternion 1 0 0 0))
               [Predict (stamp_of 102 0) (Vector3 0 0 1) (Vector3 0 0 0),
                PredictOdom stub_transformation]) \<noteq> None"
  using odom_getters_defined_iff_active
          [where ext = stand_in and sys = "\<lparr>dt = 1 / 100\<rparr>" and reg = "()"
             and start = "stamp_of 100 0" and p = "Vector3 1 2 3" and q = "Quaternion 1 0 0 0"
             and cool = 1
             and calls = "[Predict (stamp_of 102 0) (Vector3 0 0 1) (Vector3 0 0 0),
                           Correct (stamp_of 103 0) ()]"]
        odom_getters_defined_iff_active
          [where ext = stand_in and sys = "\<lparr>dt = 1 / 100\<rparr>" and reg = "()"
             and start = "stamp_of 100 0" and p = "Vector3 1 2 3" and q = "Quaternion 1 0 0 0"
             and cool = 1
             and est = "run stand_in (estimator_at (Vector3 1 2 3) (Quaternion 1 0 0 0))
               [Predict (stamp_of 102 0) (Vector3 0 0 1) (Vector3 0 0 0),
                PredictOdom stub_transformation]"
             and calls = "[Predict (stamp_of 102 0) (Vector3 0 0 1) (Vector3 0 0 0),
                           PredictOdom stub_transformation]"]
  unfolding estimator_at_def by (simp del: not_None_eq run.simps)

text \<open>
  C10. \<open>predict\<close> returns the odometry filter as it found it, and commutes with any
  replacement of that filter, present or absent: it does not read it. \<open>predict_odom\<close>
  changes the field \<open>odom_ukf\<close> and nothing else, so the inertial filter and the three
  time stamps are as before; and it commutes with a replacement of the inertial filter
  when the odometry filter exists, or when the replacement agrees with the original on
  components 0 to 2 and 6 to 9 of the mean, the ones read when the filter is created.
\<close>

theorem prediction_channels_independent:
  "odom_ukf (predict ext est stamp acc gyro) = odom_ukf est
   \<and> predict ext (est\<lparr>odom_ukf := x\<rparr>) stamp acc gyro
       = (predict ext est stamp acc gyro)\<lparr>odom_ukf := x\<rparr>
   \<and> predict_odom ext est odom_delta
       = est\<lparr>odom_ukf := odom_ukf (predict_odom ext est odom_delta)\<rparr>
   \<and> ukf (predict_odom ext est odom_delta) = ukf est
   \<and> init_stamp (predict_odom ext est odom_delta) = init_stamp est
   \<and> prev_stamp (predict_odom ext est odom_delta) = prev_stamp est
   \<and> last_correction_stamp (predict_odom ext est odom_delta) = last_correction_stamp est
   \<and> (odom_ukf est \<noteq> None
        \<or> list_all (\<lambda>i. mean k ! i = mean (ukf est) ! i) [0, 1, 2, 6, 7, 8, 9]
      \<longrightarrow> predict_odom ext (est\<lparr>ukf := k\<rparr>) odom_delta
            = (predict_odom ext est odom_delta)\<lparr>ukf := k\<rparr>)"
proof (intro conjI impI)
  show "predict ext (est\<lparr>odom_ukf := x\<rparr>) stamp acc gyro
       = (predict ext est stamp acc gyro)\<lparr>odom_ukf := x\<rparr>"
    by (rule predict_odom_ukf_update)
next
  assume a: "odom_ukf est \<noteq> None
        \<or> list_all (\<lambda>i. mean k ! i = mean (ukf est) ! i) [0, 1, 2, 6, 7, 8, 9]"
  show "predict_odom ext (est\<lparr>ukf := k\<rparr>) odom_delta
            = (predict_odom ext est odom_delta)\<lparr>ukf := k\<rparr>"
  proof (cases "odom_ukf est")
    case None
    with a have "new_odom_ukf (est\<lparr>ukf := k\<rparr>) = new_odom_ukf est"
      by (simp add: new_odom_ukf_def)
    with None show ?thesis
      by (simp add: predict_odom_eq)
  next
    case (Some ou)
    then show ?thesis
      by (simp add: predict_odom_eq)
  qed
qed (simp_all add: predict_odom_eq)

theorem prediction_channels_independent_witness:
  "odom_ukf (predict stand_in (estimator_at (Vector3 1 2 3) (Quaternion 0 1 0 0))
               (stamp_of 102 0) (Vector3 0 0 1) (Vector3 0 0 0)) = None
   \<and> ukf (predict_odom stand_in (estimator_at (Vector3 1 2 3) (Quaternion 0 1 0 0))
            stub_transformation)
       = ukf (estimator_at (Vector3 1 2 3) (Quaternion 0 1 0 0))
   \<and> predict_odom stand_in
         ((estimator_at (Vector3 1 2 3) (Quaternion 0 1 0 0))
            \<lparr>ukf := (ukf (estimator_at (Vector3 1 2 3) (Quaternion 0 1 0 0)))
                     \<lparr>mean := [1, 2, 3, 9, 9, 9, 0, 1, 0, 0, 5, 5, 5, 5, 5, 5],
                      cov := Identity 16 16\<rparr>\<rparr>)
         stub_transformation
       = (predict_odom stand_in (estimator_at (Vector3 1 2 3) (Quaternion 0 1 0 0))
            stub_transformation)
           \<lparr>ukf := (ukf (estimator_at (Vector3 1 2 3) (Quaternion 0 1 0 0)))
                    \<lparr>mean := [1, 2, 3, 9, 9, 9, 0, 1, 0, 0, 5, 5, 5, 5, 5, 5],
                     cov := Identity 16 16\<rparr>\<rparr>"
proof -
  let ?e = "estimator_at (Vector3 1 2 3) (Quaternion 0 1 0 0)"
  let ?k = "(ukf ?e)\<lparr>mean := [1, 2, 3, 9, 9, 9, 0, 1, 0, 0, 5, 5, 5, 5, 5, 5],
                      cov := Identity 16 16\<rparr>"
  note t = prediction_channels_independent
             [where ext = stand_in and est = ?e and k = ?k and odom_delta = stub_transformation
                and stamp = "stamp_of 102 0" and acc = "Vector3 0 0 1" and gyro = "Vector3 0 0 0"]
  have same: "odom_ukf ?e \<noteq> None
              \<or> list_all (\<lambda>i. mean ?k ! i = mean (ukf ?e) ! i) [0, 1, 2, 6, 7, 8, 9]"
    by (simp add: estimator_at_fields)
  have 1: "odom_ukf (predict stand_in ?e (stamp_of 102 0) (Vector3 0 0 1) (Vector3 0 0 0)) = None"
    using t [THEN conjunct1] by (simp add: estimator_at_fields)
  have 2: "ukf (predict_odom stand_in ?e stub_transformation) = ukf ?e"
    by (rule t [THEN conjunct2, THEN conjunct2, THEN conjunct2, THEN conjunct1])
  have 3: "predict_odom stand_in (?e\<lparr>ukf := ?k\<rparr>) stub_transformation
           = (predict_odom stand_in ?e stub_transformation)\<lparr>ukf := ?k\<rparr>"
    by (rule t [THEN conjunct2, THEN conjunct2, THEN conjunct2, THEN conjunct2, THEN conjunct2,
                THEN conjunct2, THEN conjunct2, rule_format, OF same])
  from 1 2 3 show ?thesis
    by blast
qed

subsection \<open>Matrix algebra behind the fusion\<close>

lemma square_mat_dims:
  assumes "square_mat n M" "0 < n"
  shows "rows M = n" "cols M = n"
  using assms by (auto simp: square_mat_def rows_def cols_def list_all_iff split: list.splits)

lemma length_mat_vec: "length (mat_vec A v) = rows A"
  by (simp add: mat_vec_def)

lemma nth_mat_vec: "i < rows A \<Longrightarrow> mat_vec A v ! i = (\<Sum>k<cols A. A ! i ! k * v ! k)"
  by (simp add: mat_vec_def)

lemma rows_mat_mul: "rows (mat_mul A B) = rows A"
  by (simp add: mat_mul_def rows_def)

lemma cols_mat_mul: "0 < rows A \<Longrightarrow> cols (mat_mul A B) = cols B"
  by (simp add: mat_mul_def rows_def cols_def upt_conv_Cons split: list.splits)

lemma nth_mat_mul:
  "i < rows A \<Longrightarrow> j < cols B \<Longrightarrow> mat_mul A B ! i ! j = (\<Sum>k<cols A. A ! i ! k * B ! k ! j)"
  by (simp add: mat_mul_def)

text \<open>The product of a matrix product with a vector, associated to the right: the two
  sums are exchanged.\<close>

lemma mat_vec_mat_mul:
  assumes "0 < rows A" and "cols A = rows B"
  shows "mat_vec (mat_mul A B) v = mat_vec A (mat_vec B v)"
proof (rule nth_equalityI)
  show "length (mat_vec (mat_mul A B) v) = length (mat_vec A (mat_vec B v))"
    by (simp add: length_mat_vec rows_mat_mul)
next
  fix i
  assume "i < length (mat_vec (mat_mul A B) v)"
  then have i: "i < rows A"
    by (simp add: length_mat_vec rows_mat_mul)
  have "mat_vec (mat_mul A B) v ! i = (\<Sum>j<cols B. (\<Sum>k<cols A. A ! i ! k * B ! k ! j) * v ! j)"
    using i assms by (simp add: nth_mat_vec rows_mat_mul cols_mat_mul nth_mat_mul)
  also have "\<dots> = (\<Sum>j<cols B. \<Sum>k<cols A. A ! i ! k * (B ! k ! j * v ! j))"
    by (simp add: sum_distrib_right mult.assoc)
  also have "\<dots> = (\<Sum>k<cols A. \<Sum>j<cols B. A ! i ! k * (B ! k ! j * v ! j))"
    by (rule sum.swap)
  also have "\<dots> = (\<Sum>k<cols A. A ! i ! k * (\<Sum>j<cols B. B ! k ! j * v ! j))"
    by (simp add: sum_distrib_left)
  also have "\<dots> = (\<Sum>k<cols A. A ! i ! k * mat_vec B v ! k)"
    using assms by (simp add: nth_mat_vec)
  also have "\<dots> = mat_vec A (mat_vec B v) ! i"
    using i by (simp add: nth_mat_vec)
  finally show "mat_vec (mat_mul A B) v ! i = mat_vec A (mat_vec B v) ! i" .
qed

lemma mat_vec_vec_add:
  assumes "cols A \<le> length u"
  shows "mat_vec A (vec_add u v) = vec_add (mat_vec A u) (mat_vec A v)"
proof (rule nth_equalityI)
  show "length (mat_vec A (vec_add u v)) = length (vec_add (mat_vec A u) (mat_vec A v))"
    by (simp add: length_mat_vec vec_add_def)
next
  fix i
  assume "i < length (mat_vec A (vec_add u v))"
  then have i: "i < rows A"
    by (simp add: length_mat_vec)
  have "mat_vec A (vec_add u v) ! i = (\<Sum>k<cols A. A ! i ! k * (u ! k + v ! k))"
    using i assms by (simp add: nth_mat_vec vec_add_def)
  also have "\<dots> = (\<Sum>k<cols A. A ! i ! k * u ! k) + (\<Sum>k<cols A. A ! i ! k * v ! k)"
    by (simp add: distrib_left sum.distrib)
  also have "\<dots> = vec_add (mat_vec A u) (mat_vec A v) ! i"
    using i by (simp add: vec_add_def length_mat_vec nth_mat_vec)
  finally show "mat_vec A (vec_add u v) ! i = vec_add (mat_vec A u) (mat_vec A v) ! i" .
qed

text \<open>Writing a block into a matrix that is given by its entries.\<close>

lemma set_block_table:
  assumes "0 < n"
  shows "set_block (map (\<lambda>i. map (f i) [0..<m]) [0..<n]) i0 j0 p q B
         = map (\<lambda>r. map (\<lambda>c. if i0 \<le> r \<and> r < i0 + p \<and> j0 \<le> c \<and> c < j0 + q
                                then B ! (r - i0) ! (c - j0) else f r c) [0..<m]) [0..<n]"
proof -
  have "cols (map (\<lambda>i. map (f i) [0..<m]) [0..<n]) = m"
    using assms by (simp add: cols_def upt_conv_Cons)
  moreover have "rows (map (\<lambda>i. map (f i) [0..<m]) [0..<n]) = n"
    by (simp add: rows_def)
  ultimately show ?thesis
    by (simp add: set_block_def)
qed

lemma imu_pose_cov_sub_block:
  "imu_pose_cov u = map (\<lambda>i. map (\<lambda>j. cov u ! pose_index i ! pose_index j) [0..<7]) [0..<7]"
proof -
  have "imu_pose_cov u =
    map (\<lambda>r. map (\<lambda>c.
        if 3 \<le> r \<and> r < 3 + 4 \<and> 3 \<le> c \<and> c < 3 + 4 then block (cov u) 6 6 4 4 ! (r - 3) ! (c - 3)
        else if 3 \<le> r \<and> r < 3 + 4 \<and> 0 \<le> c \<and> c < 0 + 3 then block (cov u) 6 0 4 3 ! (r - 3) ! (c - 0)
        else if 0 \<le> r \<and> r < 0 + 3 \<and> 3 \<le> c \<and> c < 3 + 4 then block (cov u) 0 6 3 4 ! (r - 0) ! (c - 3)
        else if 0 \<le> r \<and> r < 0 + 3 \<and> 0 \<le> c \<and> c < 0 + 3 then block (cov u) 0 0 3 3 ! (r - 0) ! (c - 0)
        else if r = c then 1 else 0) [0..<7]) [0..<7]"
    unfolding imu_pose_cov_def Let_def Identity_def
    by (simp only: set_block_table zero_less_numeral)
  also have "\<dots> = map (\<lambda>i. map (\<lambda>j. cov u ! pose_index i ! pose_index j) [0..<7]) [0..<7]"
    by (simp add: upt_7 block_def upt_3 upt_4 pose_index_def)
  finally show ?thesis .
qed

lemma imu_pose_mean_sub_block: "imu_pose_mean u = map (\<lambda>i. mean u ! pose_index i) [0..<7]"
  by (simp add: imu_pose_mean_def upt_7 pose_index_def)

lemma square_mat_imu_pose_cov: "square_mat 7 (imu_pose_cov u)"
  by (simp add: imu_pose_cov_sub_block square_mat_def list_all_iff)

lemma square_mat_mat_add:
  assumes "square_mat n A" "0 < n"
  shows "square_mat n (mat_add A B)"
  using square_mat_dims [OF assms] by (simp add: mat_add_def square_mat_def list_all_iff)

lemma square_mat_diag_inverse: "square_mat n M \<Longrightarrow> square_mat n (diag_inverse M)"
proof (cases "n = 0")
  case True
  assume "square_mat n M"
  with True show ?thesis
    by (simp add: square_mat_def diag_inverse_def rows_def)
next
  case False
  assume "square_mat n M"
  with False show ?thesis
    using square_mat_dims [of n M] by (simp add: diag_inverse_def square_mat_def list_all_iff)
qed

lemma fuse_closed_form:
  assumes inv: "\<forall>M. square_mat 7 M \<longrightarrow> square_mat 7 (inverse_m ext M)"
    and oc: "square_mat 7 (cov ou)"
  shows "fuse ext u ou
         = precision_weighted_average (inverse_m ext) (imu_pose_mean u) (imu_pose_cov u)
             (mean ou) (cov ou)"
proof -
  let ?IA = "inverse_m ext (imu_pose_cov u)"
  let ?IB = "inverse_m ext (cov ou)"
  let ?P = "inverse_m ext (mat_add ?IA ?IB)"
  have IA: "square_mat 7 ?IA"
    using inv square_mat_imu_pose_cov by blast
  have IB: "square_mat 7 ?IB"
    using inv oc by blast
  have "square_mat 7 (mat_add ?IA ?IB)"
    using IA by (rule square_mat_mat_add) simp
  then have P: "square_mat 7 ?P"
    using inv by blast
  have dA: "rows ?IA = 7" "cols ?IA = 7"
    using square_mat_dims [OF IA] by simp_all
  have dB: "rows ?IB = 7" "cols ?IB = 7"
    using square_mat_dims [OF IB] by simp_all
  have dP: "rows ?P = 7" "cols ?P = 7"
    using square_mat_dims [OF P] by simp_all
  have 1: "mat_vec (mat_mul ?P ?IA) (imu_pose_mean u) = mat_vec ?P (mat_vec ?IA (imu_pose_mean u))"
    by (rule mat_vec_mat_mul) (simp_all add: dA dP)
  have 2: "mat_vec (mat_mul ?P ?IB) (mean ou) = mat_vec ?P (mat_vec ?IB (mean ou))"
    by (rule mat_vec_mat_mul) (simp_all add: dB dP)
  have 3: "mat_vec ?P (vec_add (mat_vec ?IA (imu_pose_mean u)) (mat_vec ?IB (mean ou)))
           = vec_add (mat_vec ?P (mat_vec ?IA (imu_pose_mean u))) (mat_vec ?P (mat_vec ?IB (mean ou)))"
    by (rule mat_vec_vec_add) (simp add: length_mat_vec dA dP)
  show ?thesis
    unfolding fuse_def precision_weighted_average_def Let_def 1 2 3 ..
qed

lemma fst_correct:
  "fst (correct ext est stamp cloud)
     = fst (snd (align ext (registration est) cloud (init_guess ext est)))"
  by (simp add: correct_def Let_def split: prod.splits option.splits)

text \<open>Diagonal matrices of size 7, for the example of two diagonal covariances.\<close>

lemma sum_lessThan_7:
  fixes f :: "nat \<Rightarrow> real"
  shows "(\<Sum>k<7. f k) = f 0 + f 1 + f 2 + f 3 + f 4 + f 5 + f 6"
proof -
  have "{..<7::nat} = {0, 1, 2, 3, 4, 5, 6}"
    by auto
  then show ?thesis
    by (simp add: add.assoc)
qed

lemma diag_7:
  "diag [a, b, c, d, e, f, g] =
     [[a, 0, 0, 0, 0, 0, 0],
      [0, b, 0, 0, 0, 0, 0],
      [0, 0, c, 0, 0, 0, 0],
      [0, 0, 0, d, 0, 0, 0],
      [0, 0, 0, 0, e, 0, 0],
      [0, 0, 0, 0, 0, f, 0],
      [0, 0, 0, 0, 0, 0, g]]"
  by (simp add: diag_def upt_7)

lemma diag_inverse_diag_7:
  "diag_inverse (diag [a, b, c, d, e, f, g]) = diag [1 / a, 1 / b, 1 / c, 1 / d, 1 / e, 1 / f, 1 / g]"
  by (simp add: diag_7 diag_inverse_def rows_def cols_def upt_7)

lemma mat_add_diag_7:
  "mat_add (diag [a, b, c, d, e, f, g]) (diag [a', b', c', d', e', f', g'])
     = diag [a + a', b + b', c + c', d + d', e + e', f + f', g + g']"
  by (simp add: diag_7 mat_add_def rows_def cols_def upt_7)

lemma mat_vec_diag_7:
  "mat_vec (diag [a, b, c, d, e, f, g]) [x0, x1, x2, x3, x4, x5, x6]
     = [a * x0, b * x1, c * x2, d * x3, e * x4, f * x5, g * x6]"
  by (simp add: diag_7 mat_vec_def rows_def cols_def upt_7 sum_lessThan_7)

lemma vec_add_7:
  "vec_add [x0, x1, x2, x3, x4, x5, x6] [y0, y1, y2, y3, y4, y5, y6]
     = [x0 + y0, x1 + y1, x2 + y2, x3 + y3, x4 + y4, x5 + y5, x6 + y6]"
  by (simp add: vec_add_def upt_7)

lemma square_mat_diag_7: "square_mat 7 (diag [a, b, c, d, e, f, g])"
  by (simp add: diag_7 square_mat_def)

lemma fusion_estimator_fields:
  "odom_ukf fusion_estimator = Some fusion_odom_ukf"
  "mean (ukf fusion_estimator) = [1, 2, 3, 0, 0, 0, 1, 0, 0, 0, 0, 0, 0, 0, 0, 0]"
  "mean fusion_odom_ukf = [6, 7, 8, 1, 0, 0, 0]"
  "cov fusion_odom_ukf = diag [4, 4, 4, 2 / 5, 2 / 5, 2 / 5, 2 / 5]"
  by (simp_all add: fusion_estimator_def fusion_odom_ukf_def UnscentedKalmanFilterX_def)

lemma fusion_estimator_pose_mean:
  "map (\<lambda>i. mean (ukf fusion_estimator) ! pose_index i) [0..<7] = [1, 2, 3, 1, 0, 0, 0]"
  by (simp add: fusion_estimator_fields upt_7 pose_index_def)

lemma fusion_estimator_cov:
  "cov (ukf fusion_estimator) =
     diag [1, 1, 1, 1 / 100, 1 / 100, 1 / 100, 1 / 10, 1 / 10, 1 / 10, 1 / 10,
           1 / 100, 1 / 100, 1 / 100, 1 / 100, 1 / 100, 1 / 100]"
  by (simp add: fusion_estimator_def)

lemma fusion_estimator_pose_cov:
  "map (\<lambda>i. map (\<lambda>j. cov (ukf fusion_estimator) ! pose_index i ! pose_index j) [0..<7]) [0..<7]
     = diag [1, 1, 1, 1 / 10, 1 / 10, 1 / 10, 1 / 10]"
  by (simp add: fusion_estimator_cov diag_def upt_16 upt_7 pose_index_def)

lemma fusion_example:
  "precision_weighted_average diag_inverse [1, 2, 3, 1, 0, 0, 0]
       (diag [1, 1, 1, 1 / 10, 1 / 10, 1 / 10, 1 / 10])
       [6, 7, 8, 1, 0, 0, 0] (diag [4, 4, 4, 2 / 5, 2 / 5, 2 / 5, 2 / 5])
     = ([2, 3, 4, 1, 0, 0, 0], diag [4 / 5, 4 / 5, 4 / 5, 2 / 25, 2 / 25, 2 / 25, 2 / 25])"
  unfolding precision_weighted_average_def Let_def
  by (simp add: diag_inverse_diag_7 mat_add_diag_7 mat_vec_diag_7 vec_add_7)

text \<open>
  C1. In \<open>correct\<close>, with an odometry filter, the two 7-dimensional beliefs are the
  components 0 to 2 and 6 to 9 of the inertial mean with the matching rows and columns
  of the inertial covariance, and the odometry mean and covariance. The fused covariance
  is the inverse of the sum of their inverses, the fused mean is
  \<open>fused_cov * inv_imu_cov * imu_mean + fused_cov * inv_odom_cov * odom_mean\<close>, and the
  pair is the precision-weighted average in closed form, whatever the two covariances,
  for an inverse that gives a 7x7 matrix for a 7x7 matrix. The initial guess handed to
  the registration is the pose of the fused mean.
\<close>

theorem correct_fuses_in_information_form:
  assumes "odom_ukf est = Some ou"
    and "square_mat 7 (cov ou)"
    and "\<forall>M. square_mat 7 M \<longrightarrow> square_mat 7 (inverse_m ext M)"
  shows
    "(let imu_mean = map (\<lambda>i. mean (ukf est) ! pose_index i) [0..<7];
          imu_cov = map (\<lambda>i. map (\<lambda>j. cov (ukf est) ! pose_index i ! pose_index j) [0..<7]) [0..<7];
          inv_imu_cov = inverse_m ext imu_cov;
          inv_odom_cov = inverse_m ext (cov ou);
          fused_cov = inverse_m ext (mat_add inv_imu_cov inv_odom_cov);
          fused_mean = vec_add (mat_vec (mat_mul fused_cov inv_imu_cov) imu_mean)
                               (mat_vec (mat_mul fused_cov inv_odom_cov) (mean ou))
      in fuse ext (ukf est) ou = (fused_mean, fused_cov)
         \<and> (fused_mean, fused_cov)
             = precision_weighted_average (inverse_m ext) imu_mean imu_cov (mean ou) (cov ou)
         \<and> init_guess ext est = guess_of_mean ext fused_mean
         \<and> fst (correct ext est stamp cloud)
             = fst (snd (align ext (registration est) cloud (guess_of_mean ext fused_mean))))"
proof -
  have code: "fuse ext (ukf est) ou =
      (let imu_mean = map (\<lambda>i. mean (ukf est) ! pose_index i) [0..<7];
          imu_cov = map (\<lambda>i. map (\<lambda>j. cov (ukf est) ! pose_index i ! pose_index j) [0..<7]) [0..<7];
          inv_imu_cov = inverse_m ext imu_cov;
          inv_odom_cov = inverse_m ext (cov ou);
          fused_cov = inverse_m ext (mat_add inv_imu_cov inv_odom_cov);
          fused_mean = vec_add (mat_vec (mat_mul fused_cov inv_imu_cov) imu_mean)
                               (mat_vec (mat_mul fused_cov inv_odom_cov) (mean ou))
      in (fused_mean, fused_cov))"
    unfolding fuse_def imu_pose_mean_sub_block imu_pose_cov_sub_block Let_def ..
  have closed: "fuse ext (ukf est) ou
      = precision_weighted_average (inverse_m ext)
          (map (\<lambda>i. mean (ukf est) ! pose_index i) [0..<7])
          (map (\<lambda>i. map (\<lambda>j. cov (ukf est) ! pose_index i ! pose_index j) [0..<7]) [0..<7])
          (mean ou) (cov ou)"
    using fuse_closed_form [OF assms(3) assms(2), of "ukf est"]
    unfolding imu_pose_mean_sub_block imu_pose_cov_sub_block .
  have guess: "init_guess ext est = guess_of_mean ext (fst (fuse ext (ukf est) ou))"
    using assms(1) by (simp add: init_guess_def)
  show ?thesis
    using code closed guess unfolding Let_def
    by (simp add: fst_correct)
qed

theorem correct_fuses_in_information_form_witness:
  "fuse stand_in (ukf fusion_estimator) fusion_odom_ukf
     = precision_weighted_average diag_inverse [1, 2, 3, 1, 0, 0, 0]
         (diag [1, 1, 1, 1 / 10, 1 / 10, 1 / 10, 1 / 10])
         [6, 7, 8, 1, 0, 0, 0] (diag [4, 4, 4, 2 / 5, 2 / 5, 2 / 5, 2 / 5])
   \<and> fuse stand_in (ukf fusion_estimator) fusion_odom_ukf
     = ([2, 3, 4, 1, 0, 0, 0], diag [4 / 5, 4 / 5, 4 / 5, 2 / 25, 2 / 25, 2 / 25, 2 / 25])"
proof -
  have h1: "odom_ukf fusion_estimator = Some fusion_odom_ukf"
    by (rule fusion_estimator_fields)
  have h2: "square_mat 7 (cov fusion_odom_ukf)"
    by (simp add: fusion_estimator_fields square_mat_diag_7)
  have h3: "\<forall>M. square_mat 7 M \<longrightarrow> square_mat 7 (inverse_m stand_in M)"
    by (simp add: stand_in_fields square_mat_diag_inverse)
  note t = correct_fuses_in_information_form [OF h1 h2 h3, unfolded Let_def]
  have "fuse stand_in (ukf fusion_estimator) fusion_odom_ukf
        = precision_weighted_average (inverse_m stand_in)
            (map (\<lambda>i. mean (ukf fusion_estimator) ! pose_index i) [0..<7])
            (map (\<lambda>i. map (\<lambda>j. cov (ukf fusion_estimator) ! pose_index i ! pose_index j) [0..<7])
               [0..<7])
            (mean fusion_odom_ukf) (cov fusion_odom_ukf)"
    using t [THEN conjunct1] t [THEN conjunct2, THEN conjunct1] by (rule trans)
  then have a: "fuse stand_in (ukf fusion_estimator) fusion_odom_ukf
     = precision_weighted_average diag_inverse [1, 2, 3, 1, 0, 0, 0]
         (diag [1, 1, 1, 1 / 10, 1 / 10, 1 / 10, 1 / 10])
         [6, 7, 8, 1, 0, 0, 0] (diag [4, 4, 4, 2 / 5, 2 / 5, 2 / 5, 2 / 5])"
    unfolding fusion_estimator_pose_mean fusion_estimator_pose_cov
    unfolding stand_in_fields fusion_estimator_fields .
  from a fusion_example show ?thesis
    by simp
qed

end
